theory Spec2Isabelle
  imports Complex_Main "HOL-Library.Sublist"
begin

section \<open>Python values\<close>

text \<open>
  The bot of \<^verbatim>\<open>src/bot.py\<close> keeps one list of role-tagged messages per user, sends
  it to a chat-completion service and walks the decoded JSON answer with dictionary and
  list operations. The answer is whatever \<^verbatim>\<open>response.json()\<close> decoded, so the model
  keeps it as a JSON value and gives each Python operation applied to it its own
  function, with the exception it raises as the left summand.

  A Python \<^verbatim>\<open>str\<close> is modelled by its UTF-8 encoding, one \<^typ>\<open>char\<close> per byte: the
  literals of the source are Russian, and are written out byte by byte below. A decoded
  JSON object is the association list of its keys (read with \<^const>\<open>map_of\<close>), and a
  JSON number is the value Python parsed.
\<close>

datatype json =
    JNull
  | JBool bool
  | JNum rat
  | JStr string
  | JArr "json list"
  | JObj "(string \<times> json) list"

datatype py_error =
    IndexError
  | KeyError
  | TypeError
  | AttributeError
  | UnicodeDecodeError
  | ExternalError string

fun truthy :: "json \<Rightarrow> bool" where
  \<comment> \<open>\<^verbatim>\<open>if content:\<close>\<close>
  "truthy JNull = False"
| "truthy (JBool b) = b"
| "truthy (JNum r) = (r \<noteq> 0)"
| "truthy (JStr s) = (s \<noteq> [])"
| "truthy (JArr xs) = (xs \<noteq> [])"
| "truthy (JObj kvs) = (kvs \<noteq> [])"

fun py_in :: "string \<Rightarrow> json \<Rightarrow> py_error + bool" where
  \<comment> \<open>\<^verbatim>\<open>k in x\<close> for a string \<open>k\<close>: a key of a dict, an element of a list, a substring
     of a string; the other values are not iterable.\<close>
  "py_in k (JObj kvs) = Inr (map_of kvs k \<noteq> None)"
| "py_in k (JArr xs) = Inr (JStr k \<in> set xs)"
| "py_in k (JStr s) = Inr (sublist k s)"
| "py_in k _ = Inl TypeError"

fun py_getitem :: "json \<Rightarrow> string \<Rightarrow> py_error + json" where
  \<comment> \<open>\<^verbatim>\<open>x[k]\<close> for a string \<open>k\<close>: only a dict takes a string subscript.\<close>
  "py_getitem (JObj kvs) k = (case map_of kvs k of None \<Rightarrow> Inl KeyError | Some v \<Rightarrow> Inr v)"
| "py_getitem _ k = Inl TypeError"

fun py_get :: "json \<Rightarrow> string \<Rightarrow> json \<Rightarrow> py_error + json" where
  \<comment> \<open>\<^verbatim>\<open>x.get(k, d)\<close>: only a dict has the method.\<close>
  "py_get (JObj kvs) k d = Inr (case map_of kvs k of None \<Rightarrow> d | Some v \<Rightarrow> v)"
| "py_get _ k d = Inl AttributeError"

definition utf8_width :: "char \<Rightarrow> nat" where
  \<comment> \<open>the number of bytes of the code point that starts with this byte\<close>
  "utf8_width c =
     (let n = (of_char c :: nat)
      in if n < 0x80 then 1 else if n < 0xE0 then 2 else if n < 0xF0 then 3 else 4)"

fun py_index0 :: "json \<Rightarrow> py_error + json" where
  \<comment> \<open>\<^verbatim>\<open>x[0]\<close>: the first element of a list, the first character of a string, the
     key \<open>0\<close> of a dict (which no decoded JSON object has).\<close>
  "py_index0 (JArr []) = Inl IndexError"
| "py_index0 (JArr (x # xs)) = Inr x"
| "py_index0 (JStr []) = Inl IndexError"
| "py_index0 (JStr (c # cs)) = Inr (JStr (take (utf8_width c) (c # cs)))"
| "py_index0 (JObj kvs) = Inl KeyError"
| "py_index0 _ = Inl TypeError"

definition py_str :: "(json \<Rightarrow> string) \<Rightarrow> json \<Rightarrow> string" where
  \<comment> \<open>\<^verbatim>\<open>str(x)\<close>, as an f-string applies it: a string is itself, every other value is
     printed by Python's \<^verbatim>\<open>repr\<close>, which is taken as the parameter \<open>repr\<close>.\<close>
  "py_str repr v = (case v of JStr s \<Rightarrow> s | _ \<Rightarrow> repr v)"

definition py_last :: "nat \<Rightarrow> 'a list \<Rightarrow> 'a list" where
  \<comment> \<open>the slice \<^verbatim>\<open>xs[-n:]\<close> for \<open>n > 0\<close>: the last \<open>n\<close> elements, all of them when
     there are fewer.\<close>
  "py_last n xs = drop (length xs - n) xs"

section \<open>Constants of the bot\<close>

definition MAX_CONVERSATION_HISTORY :: nat where
  "MAX_CONVERSATION_HISTORY = 10"

definition F5AI_API_URL :: string where
  "F5AI_API_URL = ''https://api.f5ai.ru/v1/chat/completions''"

definition DEFAULT_MODEL :: string where
  "DEFAULT_MODEL = ''gpt-4o-mini''"

definition DEFAULT_MAX_TOKENS :: int where
  "DEFAULT_MAX_TOKENS = 1500"

definition DEFAULT_TEMPERATURE :: rat where
  "DEFAULT_TEMPERATURE = 7 / 10"

definition MSG_KEY_NOT_CONFIGURED :: string where
  \<comment> \<open>line 40\<close>
  "MSG_KEY_NOT_CONFIGURED = ''F5AI_API_KEY is not configured.''"

definition SYSTEM_PROMPT :: string where
  \<comment> \<open>lines 69, 89, 103: "You are a friendly and helpful AI assistant. Your name is Kanata AI."\<close>
  "SYSTEM_PROMPT =
     [CHR 0xD0, CHR 0xA2, CHR 0xD1, CHR 0x8B] @ '' '' @ [CHR 0xE2, CHR 0x80, CHR 0x94]
     @ '' '' @ [CHR 0xD0, CHR 0xB4, CHR 0xD1, CHR 0x80, CHR 0xD1, CHR 0x83, CHR 0xD0,
     CHR 0xB6, CHR 0xD0, CHR 0xB5, CHR 0xD0, CHR 0xBB, CHR 0xD1, CHR 0x8E, CHR 0xD0,
     CHR 0xB1, CHR 0xD0, CHR 0xBD, CHR 0xD1, CHR 0x8B, CHR 0xD0, CHR 0xB9] @ '' ''
     @ [CHR 0xD0, CHR 0xB8] @ '' '' @ [CHR 0xD0, CHR 0xBF, CHR 0xD0, CHR 0xBE, CHR 0xD0,
     CHR 0xBB, CHR 0xD0, CHR 0xB5, CHR 0xD0, CHR 0xB7, CHR 0xD0, CHR 0xBD, CHR 0xD1,
     CHR 0x8B, CHR 0xD0, CHR 0xB9] @ '' '' @ [CHR 0xD0, CHR 0x98, CHR 0xD0, CHR 0x98] @ ''-''
     @ [CHR 0xD0, CHR 0xB0, CHR 0xD1, CHR 0x81, CHR 0xD1, CHR 0x81, CHR 0xD0, CHR 0xB8,
     CHR 0xD1, CHR 0x81, CHR 0xD1, CHR 0x82, CHR 0xD0, CHR 0xB5, CHR 0xD0, CHR 0xBD,
     CHR 0xD1, CHR 0x82] @ ''. '' @ [CHR 0xD0, CHR 0xA2, CHR 0xD0, CHR 0xB2, CHR 0xD0,
     CHR 0xBE, CHR 0xD0, CHR 0xB5] @ '' '' @ [CHR 0xD0, CHR 0xB8, CHR 0xD0, CHR 0xBC,
     CHR 0xD1, CHR 0x8F] @ '' Kanata AI.''"

definition MSG_KEY_MISSING :: string where
  \<comment> \<open>line 98: "F5AI API key is not configured."\<close>
  "MSG_KEY_MISSING =
     ''F5AI API '' @ [CHR 0xD0, CHR 0xBA, CHR 0xD0, CHR 0xBB, CHR 0xD1, CHR 0x8E, CHR 0xD1,
     CHR 0x87] @ '' '' @ [CHR 0xD0, CHR 0xBD, CHR 0xD0, CHR 0xB5] @ '' '' @ [CHR 0xD0,
     CHR 0xBD, CHR 0xD0, CHR 0xB0, CHR 0xD1, CHR 0x81, CHR 0xD1, CHR 0x82, CHR 0xD1,
     CHR 0x80, CHR 0xD0, CHR 0xBE, CHR 0xD0, CHR 0xB5, CHR 0xD0, CHR 0xBD] @ ''.''"

definition MSG_ERROR_PREFIX :: string where
  \<comment> \<open>line 114, the literal part of the f-string: "Error: "\<close>
  "MSG_ERROR_PREFIX =
     [CHR 0xD0, CHR 0x9E, CHR 0xD1, CHR 0x88, CHR 0xD0, CHR 0xB8, CHR 0xD0, CHR 0xB1,
     CHR 0xD0, CHR 0xBA, CHR 0xD0, CHR 0xB0] @ '': ''"

definition MSG_EMPTY :: string where
  \<comment> \<open>line 122: "The answer is empty. Try rephrasing the request."\<close>
  "MSG_EMPTY =
     [CHR 0xD0, CHR 0x9E, CHR 0xD1, CHR 0x82, CHR 0xD0, CHR 0xB2, CHR 0xD0, CHR 0xB5,
     CHR 0xD1, CHR 0x82] @ '' '' @ [CHR 0xD0, CHR 0xBF, CHR 0xD1, CHR 0x83, CHR 0xD1,
     CHR 0x81, CHR 0xD1, CHR 0x82, CHR 0xD0, CHR 0xBE, CHR 0xD0, CHR 0xB9] @ ''. ''
     @ [CHR 0xD0, CHR 0x9F, CHR 0xD0, CHR 0xBE, CHR 0xD0, CHR 0xBF, CHR 0xD1, CHR 0x80,
     CHR 0xD0, CHR 0xBE, CHR 0xD0, CHR 0xB1, CHR 0xD1, CHR 0x83, CHR 0xD0, CHR 0xB9] @ '' ''
     @ [CHR 0xD0, CHR 0xBF, CHR 0xD0, CHR 0xB5, CHR 0xD1, CHR 0x80, CHR 0xD0, CHR 0xB5,
     CHR 0xD1, CHR 0x84, CHR 0xD0, CHR 0xBE, CHR 0xD1, CHR 0x80, CHR 0xD0, CHR 0xBC,
     CHR 0xD1, CHR 0x83, CHR 0xD0, CHR 0xBB, CHR 0xD0, CHR 0xB8, CHR 0xD1, CHR 0x80,
     CHR 0xD0, CHR 0xBE, CHR 0xD0, CHR 0xB2, CHR 0xD0, CHR 0xB0, CHR 0xD1, CHR 0x82,
     CHR 0xD1, CHR 0x8C] @ '' '' @ [CHR 0xD0, CHR 0xB7, CHR 0xD0, CHR 0xB0, CHR 0xD0,
     CHR 0xBF, CHR 0xD1, CHR 0x80, CHR 0xD0, CHR 0xBE, CHR 0xD1, CHR 0x81] @ ''.''"

definition MSG_NOT_TXT :: string where
  \<comment> \<open>line 128: "Please send a plain text file (.txt)."\<close>
  "MSG_NOT_TXT =
     [CHR 0xD0, CHR 0x9F, CHR 0xD0, CHR 0xBE, CHR 0xD0, CHR 0xB6, CHR 0xD0, CHR 0xB0,
     CHR 0xD0, CHR 0xBB, CHR 0xD1, CHR 0x83, CHR 0xD0, CHR 0xB9, CHR 0xD1, CHR 0x81,
     CHR 0xD1, CHR 0x82, CHR 0xD0, CHR 0xB0] @ '', '' @ [CHR 0xD0, CHR 0xBE, CHR 0xD1,
     CHR 0x82, CHR 0xD0, CHR 0xBF, CHR 0xD1, CHR 0x80, CHR 0xD0, CHR 0xB0, CHR 0xD0,
     CHR 0xB2, CHR 0xD1, CHR 0x8C] @ '' '' @ [CHR 0xD0, CHR 0xBE, CHR 0xD0, CHR 0xB1,
     CHR 0xD1, CHR 0x8B, CHR 0xD1, CHR 0x87, CHR 0xD0, CHR 0xBD, CHR 0xD1, CHR 0x8B,
     CHR 0xD0, CHR 0xB9] @ '' '' @ [CHR 0xD1, CHR 0x82, CHR 0xD0, CHR 0xB5, CHR 0xD0,
     CHR 0xBA, CHR 0xD1, CHR 0x81, CHR 0xD1, CHR 0x82, CHR 0xD0, CHR 0xBE, CHR 0xD0,
     CHR 0xB2, CHR 0xD1, CHR 0x8B, CHR 0xD0, CHR 0xB9] @ '' '' @ [CHR 0xD1, CHR 0x84,
     CHR 0xD0, CHR 0xB0, CHR 0xD0, CHR 0xB9, CHR 0xD0, CHR 0xBB] @ '' (.txt).''"

definition MSG_FILE_RECEIVED :: string where
  \<comment> \<open>line 134: "File received! Processing its contents..."\<close>
  "MSG_FILE_RECEIVED =
     [CHR 0xD0, CHR 0xA4, CHR 0xD0, CHR 0xB0, CHR 0xD0, CHR 0xB9, CHR 0xD0, CHR 0xBB] @ '' ''
     @ [CHR 0xD0, CHR 0xBF, CHR 0xD0, CHR 0xBE, CHR 0xD0, CHR 0xBB, CHR 0xD1, CHR 0x83,
     CHR 0xD1, CHR 0x87, CHR 0xD0, CHR 0xB5, CHR 0xD0, CHR 0xBD] @ ''! '' @ [CHR 0xD0,
     CHR 0x9E, CHR 0xD0, CHR 0xB1, CHR 0xD1, CHR 0x80, CHR 0xD0, CHR 0xB0, CHR 0xD0,
     CHR 0xB1, CHR 0xD0, CHR 0xB0, CHR 0xD1, CHR 0x82, CHR 0xD1, CHR 0x8B, CHR 0xD0,
     CHR 0xB2, CHR 0xD0, CHR 0xB0, CHR 0xD1, CHR 0x8E] @ '' '' @ [CHR 0xD0, CHR 0xB5,
     CHR 0xD0, CHR 0xB3, CHR 0xD0, CHR 0xBE] @ '' '' @ [CHR 0xD1, CHR 0x81, CHR 0xD0,
     CHR 0xBE, CHR 0xD0, CHR 0xB4, CHR 0xD0, CHR 0xB5, CHR 0xD1, CHR 0x80, CHR 0xD0,
     CHR 0xB6, CHR 0xD0, CHR 0xB8, CHR 0xD0, CHR 0xBC, CHR 0xD0, CHR 0xBE, CHR 0xD0,
     CHR 0xB5] @ ''...''"

definition MSG_APOLOGY :: string where
  \<comment> \<open>line 141: "An error occurred. Try again later."\<close>
  "MSG_APOLOGY =
     [CHR 0xD0, CHR 0x9F, CHR 0xD1, CHR 0x80, CHR 0xD0, CHR 0xBE, CHR 0xD0, CHR 0xB8,
     CHR 0xD0, CHR 0xB7, CHR 0xD0, CHR 0xBE, CHR 0xD1, CHR 0x88, CHR 0xD0, CHR 0xBB,
     CHR 0xD0, CHR 0xB0] @ '' '' @ [CHR 0xD0, CHR 0xBE, CHR 0xD1, CHR 0x88, CHR 0xD0,
     CHR 0xB8, CHR 0xD0, CHR 0xB1, CHR 0xD0, CHR 0xBA, CHR 0xD0, CHR 0xB0] @ ''. ''
     @ [CHR 0xD0, CHR 0x9F, CHR 0xD0, CHR 0xBE, CHR 0xD0, CHR 0xBF, CHR 0xD1, CHR 0x80,
     CHR 0xD0, CHR 0xBE, CHR 0xD0, CHR 0xB1, CHR 0xD1, CHR 0x83, CHR 0xD0, CHR 0xB9] @ '' ''
     @ [CHR 0xD1, CHR 0x81, CHR 0xD0, CHR 0xBD, CHR 0xD0, CHR 0xBE, CHR 0xD0, CHR 0xB2,
     CHR 0xD0, CHR 0xB0] @ '' '' @ [CHR 0xD0, CHR 0xBF, CHR 0xD0, CHR 0xBE, CHR 0xD0,
     CHR 0xB7, CHR 0xD0, CHR 0xB6, CHR 0xD0, CHR 0xB5] @ ''.''"

definition MSG_RESET :: string where
  \<comment> \<open>line 91: "Dialogue history has been reset! You can start over~"\<close>
  "MSG_RESET =
     [CHR 0xD0, CHR 0x98, CHR 0xD1, CHR 0x81, CHR 0xD1, CHR 0x82, CHR 0xD0, CHR 0xBE,
     CHR 0xD1, CHR 0x80, CHR 0xD0, CHR 0xB8, CHR 0xD1, CHR 0x8F] @ '' '' @ [CHR 0xD0,
     CHR 0xB4, CHR 0xD0, CHR 0xB8, CHR 0xD0, CHR 0xB0, CHR 0xD0, CHR 0xBB, CHR 0xD0,
     CHR 0xBE, CHR 0xD0, CHR 0xB3, CHR 0xD0, CHR 0xB0] @ '' '' @ [CHR 0xD1, CHR 0x81,
     CHR 0xD0, CHR 0xB1, CHR 0xD1, CHR 0x80, CHR 0xD0, CHR 0xBE, CHR 0xD1, CHR 0x88,
     CHR 0xD0, CHR 0xB5, CHR 0xD0, CHR 0xBD, CHR 0xD0, CHR 0xB0] @ ''! '' @ [CHR 0xD0,
     CHR 0x9C, CHR 0xD0, CHR 0xBE, CHR 0xD0, CHR 0xB6, CHR 0xD0, CHR 0xB5, CHR 0xD1,
     CHR 0x88, CHR 0xD1, CHR 0x8C] @ '' '' @ [CHR 0xD0, CHR 0xBD, CHR 0xD0, CHR 0xB0,
     CHR 0xD1, CHR 0x87, CHR 0xD0, CHR 0xB0, CHR 0xD1, CHR 0x82, CHR 0xD1, CHR 0x8C] @ '' ''
     @ [CHR 0xD0, CHR 0xB7, CHR 0xD0, CHR 0xB0, CHR 0xD0, CHR 0xBD, CHR 0xD0, CHR 0xBE,
     CHR 0xD0, CHR 0xB2, CHR 0xD0, CHR 0xBE] @ ''~''"

definition REQUEST_ERROR_PREFIX :: string where
  \<comment> \<open>line 60, the literal part of the f-string: "Request error: "\<close>
  "REQUEST_ERROR_PREFIX =
     [CHR 0xD0, CHR 0x9E, CHR 0xD1, CHR 0x88, CHR 0xD0, CHR 0xB8, CHR 0xD0, CHR 0xB1,
     CHR 0xD0, CHR 0xBA, CHR 0xD0, CHR 0xB0] @ '' '' @ [CHR 0xD0, CHR 0xB7, CHR 0xD0,
     CHR 0xB0, CHR 0xD0, CHR 0xBF, CHR 0xD1, CHR 0x80, CHR 0xD0, CHR 0xBE, CHR 0xD1,
     CHR 0x81, CHR 0xD0, CHR 0xB0] @ '': ''"

definition UNEXPECTED_ERROR_PREFIX :: string where
  \<comment> \<open>line 63, the literal part of the f-string: "Unexpected error: "\<close>
  "UNEXPECTED_ERROR_PREFIX =
     [CHR 0xD0, CHR 0x9D, CHR 0xD0, CHR 0xB5, CHR 0xD0, CHR 0xBF, CHR 0xD1, CHR 0x80,
     CHR 0xD0, CHR 0xB5, CHR 0xD0, CHR 0xB4, CHR 0xD0, CHR 0xB2, CHR 0xD0, CHR 0xB8,
     CHR 0xD0, CHR 0xB4, CHR 0xD0, CHR 0xB5, CHR 0xD0, CHR 0xBD, CHR 0xD0, CHR 0xBD,
     CHR 0xD0, CHR 0xB0, CHR 0xD1, CHR 0x8F] @ '' '' @ [CHR 0xD0, CHR 0xBE, CHR 0xD1,
     CHR 0x88, CHR 0xD0, CHR 0xB8, CHR 0xD0, CHR 0xB1, CHR 0xD0, CHR 0xBA, CHR 0xD0,
     CHR 0xB0] @ '': ''"

definition MSG_HELLO_BEFORE :: string where
  \<comment> \<open>lines 72-76, the text before the mention: "Hello, "\<close>
  "MSG_HELLO_BEFORE =
     [CHR 0xD0, CHR 0x9F, CHR 0xD1, CHR 0x80, CHR 0xD0, CHR 0xB8, CHR 0xD0, CHR 0xB2,
     CHR 0xD0, CHR 0xB5, CHR 0xD1, CHR 0x82] @ '', ''"

definition MSG_HELLO_AFTER :: string where
  \<comment> \<open>lines 72-76, the text after the mention; the first literal is raw\<close>
  "MSG_HELLO_AFTER =
     ''! '' @ [CHR 0xD0, CHR 0xAF] @ '' '' @ [CHR 0xE2, CHR 0x80, CHR 0x94] @ '' Kanata AI ''
     @ [CHR 0xF0, CHR 0x9F, CHR 0xA4, CHR 0x96, CHR 0xE2, CHR 0x9C, CHR 0xA8, CHR 0x5C]
     @ ''n'' @ [CHR 0x5C] @ ''n'' @ [CHR 0xD0, CHR 0x9F, CHR 0xD1, CHR 0x80, CHR 0xD0,
     CHR 0xBE, CHR 0xD1, CHR 0x81, CHR 0xD1, CHR 0x82, CHR 0xD0, CHR 0xBE] @ '' ''
     @ [CHR 0xD0, CHR 0xBD, CHR 0xD0, CHR 0xB0, CHR 0xD0, CHR 0xBF, CHR 0xD0, CHR 0xB8,
     CHR 0xD1, CHR 0x88, CHR 0xD0, CHR 0xB8] @ '' '' @ [CHR 0xD0, CHR 0xBC, CHR 0xD0,
     CHR 0xBD, CHR 0xD0, CHR 0xB5] @ '' '' @ [CHR 0xD1, CHR 0x81, CHR 0xD0, CHR 0xBE,
     CHR 0xD0, CHR 0xBE, CHR 0xD0, CHR 0xB1, CHR 0xD1, CHR 0x89, CHR 0xD0, CHR 0xB5,
     CHR 0xD0, CHR 0xBD, CHR 0xD0, CHR 0xB8, CHR 0xD0, CHR 0xB5] @ '', '' @ [CHR 0xD0,
     CHR 0xB8] @ '' '' @ [CHR 0xD1, CHR 0x8F] @ '' '' @ [CHR 0xD0, CHR 0xBF, CHR 0xD0,
     CHR 0xBE, CHR 0xD1, CHR 0x81, CHR 0xD1, CHR 0x82, CHR 0xD0, CHR 0xB0, CHR 0xD1,
     CHR 0x80, CHR 0xD0, CHR 0xB0, CHR 0xD1, CHR 0x8E, CHR 0xD1, CHR 0x81, CHR 0xD1,
     CHR 0x8C] @ '' '' @ [CHR 0xD0, CHR 0xBF, CHR 0xD0, CHR 0xBE, CHR 0xD0, CHR 0xBC,
     CHR 0xD0, CHR 0xBE, CHR 0xD1, CHR 0x87, CHR 0xD1, CHR 0x8C] @ ''.'' @ [CHR 0x0A,
     CHR 0xD0, CHR 0x9A, CHR 0xD0, CHR 0xBE, CHR 0xD0, CHR 0xBC, CHR 0xD0, CHR 0xB0,
     CHR 0xD0, CHR 0xBD, CHR 0xD0, CHR 0xB4, CHR 0xD1, CHR 0x8B] @ '':'' @ [CHR 0x0A]
     @ ''/help '' @ [CHR 0xE2, CHR 0x80, CHR 0x94] @ '' '' @ [CHR 0xD0, CHR 0xBF, CHR 0xD0,
     CHR 0xBE, CHR 0xD0, CHR 0xBC, CHR 0xD0, CHR 0xBE, CHR 0xD1, CHR 0x89, CHR 0xD1,
     CHR 0x8C, CHR 0x0A] @ ''/reset '' @ [CHR 0xE2, CHR 0x80, CHR 0x94] @ '' '' @ [CHR 0xD1,
     CHR 0x81, CHR 0xD0, CHR 0xB1, CHR 0xD1, CHR 0x80, CHR 0xD0, CHR 0xBE, CHR 0xD1,
     CHR 0x81, CHR 0xD0, CHR 0xB8, CHR 0xD1, CHR 0x82, CHR 0xD1, CHR 0x8C] @ '' ''
     @ [CHR 0xD0, CHR 0xB8, CHR 0xD1, CHR 0x81, CHR 0xD1, CHR 0x82, CHR 0xD0, CHR 0xBE,
     CHR 0xD1, CHR 0x80, CHR 0xD0, CHR 0xB8, CHR 0xD1, CHR 0x8E]"

definition MSG_HELP :: string where
  \<comment> \<open>lines 81-83, the help text\<close>
  "MSG_HELP =
     ''/start '' @ [CHR 0xE2, CHR 0x80, CHR 0x94] @ '' '' @ [CHR 0xD0, CHR 0xBD, CHR 0xD0,
     CHR 0xB0, CHR 0xD1, CHR 0x87, CHR 0xD0, CHR 0xB0, CHR 0xD1, CHR 0x82, CHR 0xD1,
     CHR 0x8C] @ '' '' @ [CHR 0xD0, CHR 0xB7, CHR 0xD0, CHR 0xB0, CHR 0xD0, CHR 0xBD,
     CHR 0xD0, CHR 0xBE, CHR 0xD0, CHR 0xB2, CHR 0xD0, CHR 0xBE, CHR 0x0A] @ ''/reset ''
     @ [CHR 0xE2, CHR 0x80, CHR 0x94] @ '' '' @ [CHR 0xD1, CHR 0x81, CHR 0xD0, CHR 0xB1,
     CHR 0xD1, CHR 0x80, CHR 0xD0, CHR 0xBE, CHR 0xD1, CHR 0x81, CHR 0xD0, CHR 0xB8,
     CHR 0xD1, CHR 0x82, CHR 0xD1, CHR 0x8C] @ '' '' @ [CHR 0xD0, CHR 0xB8, CHR 0xD1,
     CHR 0x81, CHR 0xD1, CHR 0x82, CHR 0xD0, CHR 0xBE, CHR 0xD1, CHR 0x80, CHR 0xD0,
     CHR 0xB8, CHR 0xD1, CHR 0x8E] @ '' '' @ [CHR 0xD0, CHR 0xB4, CHR 0xD0, CHR 0xB8,
     CHR 0xD0, CHR 0xB0, CHR 0xD0, CHR 0xBB, CHR 0xD0, CHR 0xBE, CHR 0xD0, CHR 0xB3,
     CHR 0xD0, CHR 0xB0, CHR 0x0A, CHR 0xD0, CHR 0x9C, CHR 0xD0, CHR 0xBE, CHR 0xD0,
     CHR 0xB6, CHR 0xD0, CHR 0xBD, CHR 0xD0, CHR 0xBE] @ '' '' @ [CHR 0xD0, CHR 0xBE,
     CHR 0xD1, CHR 0x82, CHR 0xD0, CHR 0xBF, CHR 0xD1, CHR 0x80, CHR 0xD0, CHR 0xB0,
     CHR 0xD0, CHR 0xB2, CHR 0xD0, CHR 0xBB, CHR 0xD1, CHR 0x8F, CHR 0xD1, CHR 0x82,
     CHR 0xD1, CHR 0x8C] @ '' '' @ [CHR 0xD1, CHR 0x82, CHR 0xD0, CHR 0xB5, CHR 0xD0,
     CHR 0xBA, CHR 0xD1, CHR 0x81, CHR 0xD1, CHR 0x82] @ '', '' @ [CHR 0xD0, CHR 0xB2,
     CHR 0xD0, CHR 0xBE, CHR 0xD0, CHR 0xBF, CHR 0xD1, CHR 0x80, CHR 0xD0, CHR 0xBE,
     CHR 0xD1, CHR 0x81, CHR 0xD1, CHR 0x8B] @ '' '' @ [CHR 0xD0, CHR 0xB8, CHR 0xD0,
     CHR 0xBB, CHR 0xD0, CHR 0xB8] @ '' .txt '' @ [CHR 0xD1, CHR 0x84, CHR 0xD0, CHR 0xB0,
     CHR 0xD0, CHR 0xB9, CHR 0xD0, CHR 0xBB, CHR 0xD1, CHR 0x8B] @ '' '' @ [CHR 0xD0,
     CHR 0xB4, CHR 0xD0, CHR 0xBB, CHR 0xD1, CHR 0x8F] @ '' '' @ [CHR 0xD0, CHR 0xB0,
     CHR 0xD0, CHR 0xBD, CHR 0xD0, CHR 0xB0, CHR 0xD0, CHR 0xBB, CHR 0xD0, CHR 0xB8,
     CHR 0xD0, CHR 0xB7, CHR 0xD0, CHR 0xB0] @ ''!''"

section \<open>Messages, requests and what the bot sends\<close>

record message =
  role :: string
  content :: json

definition system_message :: message where
  \<comment> \<open>the dict literal of lines 69, 89 and 103\<close>
  "system_message = \<lparr>role = ''system'', content = JStr SYSTEM_PROMPT\<rparr>"

definition user_message :: "string \<Rightarrow> message" where
  \<comment> \<open>the dict literal of line 106\<close>
  "user_message text = \<lparr>role = ''user'', content = JStr text\<rparr>"

definition assistant_message :: "json \<Rightarrow> message" where
  \<comment> \<open>the dict literal of line 120\<close>
  "assistant_message c = \<lparr>role = ''assistant'', content = c\<rparr>"

record chat_request =
  url :: string
  auth_token :: string
  model :: string
  messages :: "message list"
  max_tokens :: int
  temperature :: rat

text \<open>
  What a handler asks of the outside world, in the order it asks: replies through the
  messaging transport (\<^verbatim>\<open>reply_text\<close> receives the value it is given, a string or
  the content taken from the answer), the typing indicator, and the HTTP POST. The
  transport's calls are taken to return; logging is left out.
\<close>

datatype action =
    ReplyText json
  | ReplyHtml string
  | SendChatAction string
  | HttpPost chat_request

text \<open>
  What \<^verbatim>\<open>requests.post\<close>, \<^verbatim>\<open>raise_for_status\<close> and \<^verbatim>\<open>response.json()\<close> come to,
  between them: a decoded 2xx body, a \<^verbatim>\<open>RequestException\<close> (timeout, connection
  error, non-2xx status) or another exception, each with its \<^verbatim>\<open>str(e)\<close>.
\<close>

datatype http_outcome =
    Json json
  | RequestException string
  | OtherException string

type_synonym conversations = "int \<Rightarrow> message list option"

record result =
  convs :: conversations
  sent :: "action list"
  raised :: "py_error option"

section \<open>The upstream call\<close>

definition key_unset :: "string option \<Rightarrow> bool" where
  \<comment> \<open>\<^verbatim>\<open>not F5AI_API_KEY\<close>: the variable is absent or empty\<close>
  "key_unset key = (case key of None \<Rightarrow> True | Some k \<Rightarrow> k = [])"

definition call_f5ai_api ::
  "string option \<Rightarrow> message list \<Rightarrow> http_outcome \<Rightarrow> action list \<times> json" where
  \<comment> \<open>lines 38-63; returns the I/O performed and the dict handed back\<close>
  "call_f5ai_api key msgs outcome =
     (if key_unset key then ([], JObj [(''error'', JStr MSG_KEY_NOT_CONFIGURED)])
      else
        ([HttpPost \<lparr>url = F5AI_API_URL, auth_token = (case key of Some k \<Rightarrow> k | None \<Rightarrow> []),
                    model = DEFAULT_MODEL, messages = msgs,
                    max_tokens = DEFAULT_MAX_TOKENS, temperature = DEFAULT_TEMPERATURE\<rparr>],
         case outcome of
           Json j \<Rightarrow> j
         | RequestException e \<Rightarrow> JObj [(''error'', JStr (REQUEST_ERROR_PREFIX @ e))]
         | OtherException e \<Rightarrow> JObj [(''error'', JStr (UNEXPECTED_ERROR_PREFIX @ e))]))"

section \<open>The conversation store\<close>

definition ensure :: "conversations \<Rightarrow> int \<Rightarrow> conversations" where
  \<comment> \<open>lines 101-104\<close>
  "ensure cs user_id = (if cs user_id = None then cs(user_id \<mapsto> [system_message]) else cs)"

definition history :: "conversations \<Rightarrow> int \<Rightarrow> message list" where
  \<comment> \<open>\<^verbatim>\<open>user_conversations[user_id]\<close>, read where the key is present\<close>
  "history cs user_id = (case cs user_id of Some h \<Rightarrow> h | None \<Rightarrow> [])"

definition trim :: "message list \<Rightarrow> message list" where
  \<comment> \<open>lines 107-108\<close>
  "trim h =
     (if length h > MAX_CONVERSATION_HISTORY + 1
      then [h ! 0] @ py_last MAX_CONVERSATION_HISTORY h
      else h)"

definition append_user :: "conversations \<Rightarrow> int \<Rightarrow> string \<Rightarrow> conversations" where
  \<comment> \<open>lines 106-108, on a store that has the key\<close>
  "append_user cs user_id text = cs(user_id \<mapsto> trim (history cs user_id @ [user_message text]))"

definition append_assistant :: "conversations \<Rightarrow> int \<Rightarrow> json \<Rightarrow> conversations" where
  \<comment> \<open>line 120\<close>
  "append_assistant cs user_id c = cs(user_id \<mapsto> history cs user_id @ [assistant_message c])"

definition fresh :: "conversations \<Rightarrow> int \<Rightarrow> conversations" where
  \<comment> \<open>lines 68-70 and 88-90\<close>
  "fresh cs user_id = cs(user_id \<mapsto> [system_message])"

section \<open>The handlers\<close>

definition extract_content :: "json \<Rightarrow> py_error + json" where
  \<comment> \<open>line 117\<close>
  "extract_content api_response =
     (case py_get api_response ''choices'' (JArr [JObj []]) of
        Inl e \<Rightarrow> Inl e
      | Inr choices \<Rightarrow>
         (case py_index0 choices of
            Inl e \<Rightarrow> Inl e
          | Inr choice \<Rightarrow>
             (case py_get choice ''message'' (JObj []) of
                Inl e \<Rightarrow> Inl e
              | Inr msg \<Rightarrow> py_get msg ''content'' (JStr []))))"

text \<open>
  A handler reads \<^verbatim>\<open>update.effective_user\<close> and \<^verbatim>\<open>update.message\<close>. The library
  leaves either at \<^verbatim>\<open>None\<close> for some of the updates it hands to the handlers of
  lines 154-158, which are registered with no restriction on the kind of update: an
  edited message and a channel post have their text or document elsewhere than under
  \<^verbatim>\<open>update.message\<close>, and a channel post has no user. Reading an attribute of
  \<^verbatim>\<open>None\<close> raises \<open>AttributeError\<close>. So each handler takes the two as options: the
  user as the \<^verbatim>\<open>id\<close> (with \<^verbatim>\<open>mention_html()\<close> where it is read), the message as
  what the handler reads of it, or as a flag where it only replies to it.
\<close>

definition start_command :: "conversations \<Rightarrow> (int \<times> string) option \<Rightarrow> bool \<Rightarrow> result" where
  \<comment> \<open>lines 66-77; line 68 reads \<^verbatim>\<open>user.id\<close>, line 71 \<^verbatim>\<open>update.message.reply_html\<close>
     after the store is written\<close>
  "start_command cs effective_user has_message =
     (case effective_user of
        None \<Rightarrow> \<lparr>convs = cs, sent = [], raised = Some AttributeError\<rparr>
      | Some (user_id, mention) \<Rightarrow>
          if has_message
          then \<lparr>convs = fresh cs user_id,
                sent = [ReplyHtml (MSG_HELLO_BEFORE @ mention @ MSG_HELLO_AFTER)],
                raised = None\<rparr>
          else \<lparr>convs = fresh cs user_id, sent = [], raised = Some AttributeError\<rparr>)"

definition help_command :: "conversations \<Rightarrow> bool \<Rightarrow> result" where
  \<comment> \<open>lines 79-84\<close>
  "help_command cs has_message =
     (if has_message
      then \<lparr>convs = cs, sent = [ReplyText (JStr MSG_HELP)], raised = None\<rparr>
      else \<lparr>convs = cs, sent = [], raised = Some AttributeError\<rparr>)"

definition reset_command :: "conversations \<Rightarrow> int option \<Rightarrow> bool \<Rightarrow> result" where
  \<comment> \<open>lines 86-91; line 87 reads \<^verbatim>\<open>update.effective_user.id\<close>, line 91
     \<^verbatim>\<open>update.message.reply_text\<close> after the store is written\<close>
  "reset_command cs effective_user has_message =
     (case effective_user of
        None \<Rightarrow> \<lparr>convs = cs, sent = [], raised = Some AttributeError\<rparr>
      | Some user_id \<Rightarrow>
          if has_message
          then \<lparr>convs = fresh cs user_id, sent = [ReplyText (JStr MSG_RESET)], raised = None\<rparr>
          else \<lparr>convs = fresh cs user_id, sent = [], raised = Some AttributeError\<rparr>)"

definition handle_text ::
  "string option \<Rightarrow> (json \<Rightarrow> string) \<Rightarrow> conversations \<Rightarrow> int option \<Rightarrow> string option
     \<Rightarrow> http_outcome \<Rightarrow> result" where
  \<comment> \<open>lines 93-122; \<open>message\<close> is the text of \<^verbatim>\<open>update.message\<close>. Line 94 reads
     \<^verbatim>\<open>update.effective_user.id\<close> and line 95 \<^verbatim>\<open>update.message.text\<close>, before the
     test of the key.\<close>
  "handle_text key repr cs effective_user message outcome =
     (case effective_user of
        None \<Rightarrow> \<lparr>convs = cs, sent = [], raised = Some AttributeError\<rparr>
      | Some user_id \<Rightarrow>
     (case message of
        None \<Rightarrow> \<lparr>convs = cs, sent = [], raised = Some AttributeError\<rparr>
      | Some text \<Rightarrow>
      if key_unset key
      then \<lparr>convs = cs, sent = [ReplyText (JStr MSG_KEY_MISSING)], raised = None\<rparr>
      else
        let cs1 = append_user (ensure cs user_id) user_id text;
            (io, api_response) = call_f5ai_api key (history cs1 user_id) outcome;
            out = SendChatAction ''typing'' # io
        in case py_in ''error'' api_response of
             Inl e \<Rightarrow> \<lparr>convs = cs1, sent = out, raised = Some e\<rparr>
           | Inr True \<Rightarrow>
              (case py_getitem api_response ''error'' of
                 Inl e \<Rightarrow> \<lparr>convs = cs1, sent = out, raised = Some e\<rparr>
               | Inr detail \<Rightarrow>
                  \<lparr>convs = cs1,
                   sent = out @ [ReplyText (JStr (MSG_ERROR_PREFIX @ py_str repr detail))],
                   raised = None\<rparr>)
           | Inr False \<Rightarrow>
              (case extract_content api_response of
                 Inl e \<Rightarrow> \<lparr>convs = cs1, sent = out, raised = Some e\<rparr>
               | Inr c \<Rightarrow>
                  if truthy c
                  then \<lparr>convs = append_assistant cs1 user_id c,
                        sent = out @ [ReplyText c], raised = None\<rparr>
                  else \<lparr>convs = cs1, sent = out @ [ReplyText (JStr MSG_EMPTY)],
                        raised = None\<rparr>)))"

definition handle_document ::
  "string option \<Rightarrow> (json \<Rightarrow> string) \<Rightarrow> conversations \<Rightarrow> int option
     \<Rightarrow> (string option \<times> (py_error + string)) option \<Rightarrow> http_outcome \<Rightarrow> result" where
  \<comment> \<open>lines 124-136; \<open>message\<close> is the document of \<^verbatim>\<open>update.message\<close>, read by line
     126 before the test of the MIME type: its \<open>mime_type\<close>, optional in the
     transport's document, and what fetching the file and decoding it as UTF-8 (lines
     131-132) comes to, an exception or the text. Line 135 puts the text into the
     message and line 136 hands the same update to the text handler.\<close>
  "handle_document key repr cs effective_user message outcome =
     (case message of
        None \<Rightarrow> \<lparr>convs = cs, sent = [], raised = Some AttributeError\<rparr>
      | Some (mime_type, download) \<Rightarrow>
      if mime_type \<noteq> Some ''text/plain''
      then \<lparr>convs = cs, sent = [ReplyText (JStr MSG_NOT_TXT)], raised = None\<rparr>
      else
        case download of
          Inl e \<Rightarrow> \<lparr>convs = cs, sent = [], raised = Some e\<rparr>
        | Inr text \<Rightarrow>
            let r = handle_text key repr cs effective_user (Some text) outcome
            in r\<lparr>sent := ReplyText (JStr MSG_FILE_RECEIVED) # sent r\<rparr>)"

definition error_handler :: "bool \<Rightarrow> result \<Rightarrow> result" where
  \<comment> \<open>lines 138-141: the apology is sent only when \<^verbatim>\<open>update.message\<close> is there (line
     140); the exception stays in \<open>raised\<close> as what was logged\<close>
  "error_handler has_message r =
     (if has_message then r\<lparr>sent := sent r @ [ReplyText (JStr MSG_APOLOGY)]\<rparr> else r)"

text \<open>
  The updates the handlers registered in \<^verbatim>\<open>main\<close> (lines 154-159) receive, each with
  what the outside world answers while it is processed: the effective user, whether
  the message of the update is \<^verbatim>\<open>update.message\<close> (it is not for an edited message
  or a channel post), and the text or the document of that message. The application
  calls the handler and, when it raises, the error handler.
\<close>

datatype update =
    Start "(int \<times> string) option" bool
  | Help bool
  | Reset "int option" bool
  | Text "int option" bool string http_outcome
  | Document "int option" bool "string option" "py_error + string" http_outcome

fun has_message :: "update \<Rightarrow> bool" where
  \<comment> \<open>\<^verbatim>\<open>update.message\<close> is not \<^verbatim>\<open>None\<close>\<close>
  "has_message (Start effective_user m) = m"
| "has_message (Help m) = m"
| "has_message (Reset effective_user m) = m"
| "has_message (Text effective_user m text outcome) = m"
| "has_message (Document effective_user m mime_type download outcome) = m"

fun dispatch :: "string option \<Rightarrow> (json \<Rightarrow> string) \<Rightarrow> conversations \<Rightarrow> update \<Rightarrow> result" where
  "dispatch key repr cs (Start effective_user m) = start_command cs effective_user m"
| "dispatch key repr cs (Help m) = help_command cs m"
| "dispatch key repr cs (Reset effective_user m) = reset_command cs effective_user m"
| "dispatch key repr cs (Text effective_user m text outcome) =
     handle_text key repr cs effective_user (if m then Some text else None) outcome"
| "dispatch key repr cs (Document effective_user m mime_type download outcome) =
     handle_document key repr cs effective_user
       (if m then Some (mime_type, download) else None) outcome"

definition process_update ::
  "string option \<Rightarrow> (json \<Rightarrow> string) \<Rightarrow> conversations \<Rightarrow> update \<Rightarrow> result" where
  "process_update key repr cs u =
     (let r = dispatch key repr cs u
      in case raised r of None \<Rightarrow> r | Some e \<Rightarrow> error_handler (has_message u) r)"

fun run :: "string option \<Rightarrow> (json \<Rightarrow> string) \<Rightarrow> conversations \<Rightarrow> update list \<Rightarrow> conversations" where
  \<comment> \<open>the store after a sequence of updates, processed one after the other\<close>
  "run key repr cs [] = cs"
| "run key repr cs (u # us) = run key repr (convs (process_update key repr cs u)) us"

section \<open>Invariants of the store\<close>

text \<open>
  Two properties of a store that every handler keeps: no history is longer than the
  window, the system message and one assistant message; and every history starts with
  the system message.
\<close>

definition bounded :: "conversations \<Rightarrow> bool" where
  "bounded cs = (\<forall>v h. cs v = Some h \<longrightarrow> length h \<le> MAX_CONVERSATION_HISTORY + 2)"

definition rooted :: "conversations \<Rightarrow> bool" where
  "rooted cs = (\<forall>v h. cs v = Some h \<longrightarrow> h \<noteq> [] \<and> h ! 0 = system_message)"

section \<open>The store operations\<close>

lemma length_trim:
  "length (trim h) = (if length h > MAX_CONVERSATION_HISTORY + 1 then MAX_CONVERSATION_HISTORY + 1 else length h)"
  by (simp add: trim_def py_last_def MAX_CONVERSATION_HISTORY_def)

lemma length_trim_le: "length (trim h) \<le> MAX_CONVERSATION_HISTORY + 1"
  by (simp add: length_trim)

lemma trim_nth0: "trim h ! 0 = h ! 0"
  by (simp add: trim_def)

lemma trim_not_Nil: "h \<noteq> [] \<Longrightarrow> trim h \<noteq> []"
  by (simp add: trim_def)

lemma history_ensure:
  "history (ensure cs user_id) user_id = (case cs user_id of None \<Rightarrow> [system_message] | Some h \<Rightarrow> h)"
  by (simp add: history_def ensure_def split: option.splits)

lemma ensure_other: "v \<noteq> user_id \<Longrightarrow> ensure cs user_id v = cs v"
  by (simp add: ensure_def)

lemma append_user_same:
  "append_user cs user_id text user_id = Some (trim (history cs user_id @ [user_message text]))"
  by (simp add: append_user_def)

lemma append_user_other: "v \<noteq> user_id \<Longrightarrow> append_user cs user_id text v = cs v"
  by (simp add: append_user_def)

lemma append_assistant_same:
  "append_assistant cs user_id c user_id = Some (history cs user_id @ [assistant_message c])"
  by (simp add: append_assistant_def)

lemma append_assistant_other: "v \<noteq> user_id \<Longrightarrow> append_assistant cs user_id c v = cs v"
  by (simp add: append_assistant_def)

lemma history_append_user:
  "history (append_user cs user_id text) user_id = trim (history cs user_id @ [user_message text])"
  by (simp add: history_def append_user_def)

lemma handle_text_convs:
  "convs (handle_text key repr cs effective_user message outcome) = cs
   \<or> (\<exists>v t. convs (handle_text key repr cs effective_user message outcome)
          = append_user (ensure cs v) v t)
   \<or> (\<exists>v t c. convs (handle_text key repr cs effective_user message outcome)
          = append_assistant (append_user (ensure cs v) v t) v c)"
proof (cases effective_user)
  case None
  then show ?thesis by (simp add: handle_text_def)
next
  case (Some v)
  show ?thesis
  proof (cases message)
    case None
    then show ?thesis using Some by (simp add: handle_text_def)
  next
    case (Some t)
    have "convs (handle_text key repr cs (Some v) (Some t) outcome) = cs
      \<or> convs (handle_text key repr cs (Some v) (Some t) outcome) = append_user (ensure cs v) v t
      \<or> (\<exists>c. convs (handle_text key repr cs (Some v) (Some t) outcome)
             = append_assistant (append_user (ensure cs v) v t) v c)"
      by (auto simp: handle_text_def Let_def split: prod.splits sum.splits bool.splits)
    then show ?thesis using \<open>effective_user = Some v\<close> Some by blast
  qed
qed

lemma convs_error_handler: "convs (error_handler m r) = convs r"
  by (simp add: error_handler_def)

lemma convs_process_update:
  "convs (process_update key repr cs u) = convs (dispatch key repr cs u)"
  by (simp add: process_update_def Let_def convs_error_handler split: option.splits)

lemma handle_document_convs:
  "convs (handle_document key repr cs effective_user message outcome) = cs
   \<or> (\<exists>body. convs (handle_document key repr cs effective_user message outcome)
          = convs (handle_text key repr cs effective_user (Some body) outcome))"
  by (auto simp: handle_document_def Let_def split: option.splits sum.splits)

lemma process_update_cases:
  "convs (process_update key repr cs u) = cs
   \<or> (\<exists>user_id. convs (process_update key repr cs u) = fresh cs user_id)
   \<or> (\<exists>user_id text. convs (process_update key repr cs u) = append_user (ensure cs user_id) user_id text)
   \<or> (\<exists>user_id text c. convs (process_update key repr cs u)
          = append_assistant (append_user (ensure cs user_id) user_id text) user_id c)"
proof (cases u)
  case (Start effective_user m)
  then show ?thesis
    by (auto simp: convs_process_update start_command_def split: option.splits)
next
  case (Help m)
  then show ?thesis by (simp add: convs_process_update help_command_def)
next
  case (Reset effective_user m)
  then show ?thesis
    by (auto simp: convs_process_update reset_command_def split: option.splits)
next
  case (Text effective_user m body outcome)
  then show ?thesis
    using handle_text_convs[of key repr cs effective_user "if m then Some body else None" outcome]
    by (simp only: convs_process_update dispatch.simps) blast
next
  case (Document effective_user m mime_type download outcome)
  from handle_document_convs[of key repr cs effective_user
         "if m then Some (mime_type, download) else None" outcome]
  show ?thesis
  proof
    assume "convs (handle_document key repr cs effective_user
              (if m then Some (mime_type, download) else None) outcome) = cs"
    then show ?thesis using Document by (simp only: convs_process_update dispatch.simps) blast
  next
    assume "\<exists>body. convs (handle_document key repr cs effective_user
              (if m then Some (mime_type, download) else None) outcome)
            = convs (handle_text key repr cs effective_user (Some body) outcome)"
    then obtain body where "convs (handle_document key repr cs effective_user
              (if m then Some (mime_type, download) else None) outcome)
            = convs (handle_text key repr cs effective_user (Some body) outcome)" by blast
    then show ?thesis
      using Document handle_text_convs[of key repr cs effective_user "Some body" outcome]
      by (simp only: convs_process_update dispatch.simps) metis
  qed
qed

lemma process_update_invariant:
  assumes "P cs"
    and "\<And>v. P (fresh cs v)"
    and "\<And>v t. P (append_user (ensure cs v) v t)"
    and "\<And>v t c. P (append_assistant (append_user (ensure cs v) v t) v c)"
  shows "P (convs (process_update key repr cs u))"
  using process_update_cases[of key repr cs u] assms by auto

lemma run_invariant:
  assumes "P cs"
    and "\<And>cs v. P cs \<Longrightarrow> P (fresh cs v)"
    and "\<And>cs v t. P cs \<Longrightarrow> P (append_user (ensure cs v) v t)"
    and "\<And>cs v t c. P cs \<Longrightarrow> P (append_assistant (append_user (ensure cs v) v t) v c)"
  shows "P (run key repr cs us)"
  using assms(1)
proof (induction us arbitrary: cs)
  case Nil
  then show ?case by simp
next
  case (Cons u us)
  have "P (convs (process_update key repr cs u))"
    by (rule process_update_invariant) (simp_all add: Cons.prems assms(2-4))
  then show ?case by (simp add: Cons.IH)
qed

lemma bounded_fresh: "bounded cs \<Longrightarrow> bounded (fresh cs v)"
  by (simp add: bounded_def fresh_def)

lemma bounded_append_user: "bounded cs \<Longrightarrow> bounded (append_user (ensure cs v) v t)"
  unfolding bounded_def
proof (intro allI impI)
  fix w h
  assume b: "\<forall>v h. cs v = Some h \<longrightarrow> length h \<le> MAX_CONVERSATION_HISTORY + 2"
    and s: "append_user (ensure cs v) v t w = Some h"
  show "length h \<le> MAX_CONVERSATION_HISTORY + 2"
  proof (cases "w = v")
    case True
    with s have "h = trim (history (ensure cs v) v @ [user_message t])"
      by (simp add: append_user_same)
    then show ?thesis using length_trim_le[of "history (ensure cs v) v @ [user_message t]"] by simp
  next
    case False
    with s have "cs w = Some h" by (simp add: append_user_other ensure_other)
    with b show ?thesis by blast
  qed
qed

lemma bounded_append_assistant:
  "bounded cs \<Longrightarrow> bounded (append_assistant (append_user (ensure cs v) v t) v c)"
  unfolding bounded_def
proof (intro allI impI)
  fix w h
  assume b: "\<forall>v h. cs v = Some h \<longrightarrow> length h \<le> MAX_CONVERSATION_HISTORY + 2"
    and s: "append_assistant (append_user (ensure cs v) v t) v c w = Some h"
  show "length h \<le> MAX_CONVERSATION_HISTORY + 2"
  proof (cases "w = v")
    case True
    with s have "h = trim (history (ensure cs v) v @ [user_message t]) @ [assistant_message c]"
      by (simp add: append_assistant_same history_append_user)
    then show ?thesis using length_trim_le[of "history (ensure cs v) v @ [user_message t]"] by simp
  next
    case False
    with s have "cs w = Some h"
      by (simp add: append_assistant_other append_user_other ensure_other)
    with b show ?thesis by blast
  qed
qed

lemma bounded_run: "bounded (run key repr Map.empty us)"
  by (rule run_invariant)
     (simp_all add: bounded_fresh bounded_append_user bounded_append_assistant, simp add: bounded_def)

lemma history_ensure_rooted:
  "rooted cs \<Longrightarrow> history (ensure cs v) v \<noteq> [] \<and> history (ensure cs v) v ! 0 = system_message"
  by (auto simp: rooted_def history_ensure split: option.splits)

lemma rooted_fresh: "rooted cs \<Longrightarrow> rooted (fresh cs v)"
  by (simp add: rooted_def fresh_def)

lemma rooted_append_user: "rooted cs \<Longrightarrow> rooted (append_user (ensure cs v) v t)"
  unfolding rooted_def[of "append_user (ensure cs v) v t"]
proof (intro allI impI)
  fix w h
  assume r: "rooted cs" and s: "append_user (ensure cs v) v t w = Some h"
  show "h \<noteq> [] \<and> h ! 0 = system_message"
  proof (cases "w = v")
    case True
    with s have h: "h = trim (history (ensure cs v) v @ [user_message t])"
      by (simp add: append_user_same)
    from history_ensure_rooted[OF r, of v] show ?thesis
      by (simp add: h trim_not_Nil trim_nth0 nth_append)
  next
    case False
    with s have "cs w = Some h" by (simp add: append_user_other ensure_other)
    with r show ?thesis by (simp add: rooted_def)
  qed
qed

lemma rooted_append_assistant:
  "rooted cs \<Longrightarrow> rooted (append_assistant (append_user (ensure cs v) v t) v c)"
  unfolding rooted_def[of "append_assistant (append_user (ensure cs v) v t) v c"]
proof (intro allI impI)
  fix w h
  assume r: "rooted cs" and s: "append_assistant (append_user (ensure cs v) v t) v c w = Some h"
  show "h \<noteq> [] \<and> h ! 0 = system_message"
  proof (cases "w = v")
    case True
    with s have h: "h = trim (history (ensure cs v) v @ [user_message t]) @ [assistant_message c]"
      by (simp add: append_assistant_same history_append_user)
    from history_ensure_rooted[OF r, of v] show ?thesis
      by (simp add: h trim_not_Nil trim_nth0 nth_append)
  next
    case False
    with s have "cs w = Some h"
      by (simp add: append_assistant_other append_user_other ensure_other)
    with r show ?thesis by (simp add: rooted_def)
  qed
qed

lemma rooted_run: "rooted (run key repr Map.empty us)"
  by (rule run_invariant)
     (simp_all add: rooted_fresh rooted_append_user rooted_append_assistant, simp add: rooted_def)

lemma rooted_process_update: "rooted cs \<Longrightarrow> rooted (convs (process_update key repr cs u))"
  by (rule process_update_invariant)
     (simp_all add: rooted_fresh rooted_append_user rooted_append_assistant)

lemma process_update_keeps_user:
  "cs v \<noteq> None \<Longrightarrow> convs (process_update key repr cs u) v \<noteq> None"
  by (rule process_update_invariant)
     (auto simp: fresh_def append_user_def append_assistant_def ensure_def)

section \<open>The branches of the text handler\<close>

lemma handle_text_configured:
  "\<not> key_unset key \<Longrightarrow>
   handle_text key repr cs (Some user_id) (Some text) outcome =
     (let cs1 = append_user (ensure cs user_id) user_id text;
          io = fst (call_f5ai_api key (history cs1 user_id) outcome);
          api_response = snd (call_f5ai_api key (history cs1 user_id) outcome);
          out = SendChatAction ''typing'' # io
      in case py_in ''error'' api_response of
           Inl e \<Rightarrow> \<lparr>convs = cs1, sent = out, raised = Some e\<rparr>
         | Inr True \<Rightarrow>
            (case py_getitem api_response ''error'' of
               Inl e \<Rightarrow> \<lparr>convs = cs1, sent = out, raised = Some e\<rparr>
             | Inr detail \<Rightarrow>
                \<lparr>convs = cs1,
                 sent = out @ [ReplyText (JStr (MSG_ERROR_PREFIX @ py_str repr detail))],
                 raised = None\<rparr>)
         | Inr False \<Rightarrow>
            (case extract_content api_response of
               Inl e \<Rightarrow> \<lparr>convs = cs1, sent = out, raised = Some e\<rparr>
             | Inr c \<Rightarrow>
                if truthy c
                then \<lparr>convs = append_assistant cs1 user_id c,
                      sent = out @ [ReplyText c], raised = None\<rparr>
                else \<lparr>convs = cs1, sent = out @ [ReplyText (JStr MSG_EMPTY)],
                      raised = None\<rparr>))"
  by (simp add: handle_text_def Let_def case_prod_beta)

lemma handle_text_failure:
  assumes "\<not> key_unset key"
    and "snd (call_f5ai_api key (history (append_user (ensure cs user_id) user_id text) user_id) outcome)
           = JObj kvs"
    and "map_of kvs ''error'' = Some detail"
  shows "handle_text key repr cs (Some user_id) (Some text) outcome =
           \<lparr>convs = append_user (ensure cs user_id) user_id text,
            sent = SendChatAction ''typing''
                   # fst (call_f5ai_api key
                          (history (append_user (ensure cs user_id) user_id text) user_id) outcome)
                   @ [ReplyText (JStr (MSG_ERROR_PREFIX @ py_str repr detail))],
            raised = None\<rparr>"
  using assms by (simp add: handle_text_configured Let_def)

lemma handle_text_no_content:
  assumes "\<not> key_unset key"
    and "snd (call_f5ai_api key (history (append_user (ensure cs user_id) user_id text) user_id) outcome)
           = resp"
    and "py_in ''error'' resp = Inr False"
    and "extract_content resp = Inr c"
    and "\<not> truthy c"
  shows "handle_text key repr cs (Some user_id) (Some text) outcome =
           \<lparr>convs = append_user (ensure cs user_id) user_id text,
            sent = SendChatAction ''typing''
                   # fst (call_f5ai_api key
                          (history (append_user (ensure cs user_id) user_id text) user_id) outcome)
                   @ [ReplyText (JStr MSG_EMPTY)],
            raised = None\<rparr>"
  using assms by (simp add: handle_text_configured Let_def)

lemma call_f5ai_api_json:
  "\<not> key_unset key \<Longrightarrow> snd (call_f5ai_api key msgs (Json j)) = j"
  by (simp add: call_f5ai_api_def)

lemma call_f5ai_api_posts:
  "\<not> key_unset key \<Longrightarrow>
   fst (call_f5ai_api key msgs outcome) =
     [HttpPost \<lparr>url = F5AI_API_URL, auth_token = (case key of Some k \<Rightarrow> k | None \<Rightarrow> []),
                model = DEFAULT_MODEL, messages = msgs,
                max_tokens = DEFAULT_MAX_TOKENS, temperature = DEFAULT_TEMPERATURE\<rparr>]"
  by (simp add: call_f5ai_api_def)

lemma MSG_EMPTY_not_error: "MSG_EMPTY \<noteq> MSG_ERROR_PREFIX @ d"
  by (simp add: MSG_EMPTY_def MSG_ERROR_PREFIX_def)

lemma MSG_EMPTY_not_key_missing: "MSG_EMPTY \<noteq> MSG_KEY_MISSING"
  by (simp add: MSG_EMPTY_def MSG_KEY_MISSING_def)

lemma MSG_EMPTY_not_apology: "MSG_EMPTY \<noteq> MSG_APOLOGY"
  by (simp add: MSG_EMPTY_def MSG_APOLOGY_def)

lemma MSG_APOLOGY_not_error: "MSG_APOLOGY \<noteq> MSG_ERROR_PREFIX @ d"
  by (simp add: MSG_APOLOGY_def MSG_ERROR_PREFIX_def)

lemma extract_content_missing:
  assumes "map_of kvs ''choices'' = None
         \<or> (\<exists>ch rest. map_of kvs ''choices'' = Some (JArr (JObj ch # rest))
              \<and> (map_of ch ''message'' = None
                   \<or> (\<exists>m. map_of ch ''message'' = Some (JObj m) \<and> map_of m ''content'' = None)))"
  shows "extract_content (JObj kvs) = Inr (JStr [])"
  using assms by (auto simp: extract_content_def)

lemma last_trim: "h \<noteq> [] \<Longrightarrow> last (trim h) = last h"
  by (simp add: trim_def py_last_def MAX_CONVERSATION_HISTORY_def)

lemma second_last_in_trim: "x \<in> set (trim (hs @ [x, y]))"
proof (cases "length (hs @ [x, y]) > MAX_CONVERSATION_HISTORY + 1")
  case False
  then show ?thesis by (simp add: trim_def)
next
  case True
  then have "py_last MAX_CONVERSATION_HISTORY (hs @ [x, y])
               = drop (length hs + 2 - MAX_CONVERSATION_HISTORY) hs @ [x, y]"
    by (simp add: py_last_def MAX_CONVERSATION_HISTORY_def)
  then show ?thesis using True by (simp add: trim_def)
qed

section \<open>The length of a history\<close>

text \<open>
  Claim C1, as the code has it. The trim of lines 107-108 follows the user append only;
  the assistant append of line 120 comes after it and is not trimmed before the next
  user message. So in every store reached from the empty one by any sequence of
  updates, a history has at most \<open>MAX_CONVERSATION_HISTORY + 2\<close> entries; a reset leaves
  one entry, a user append with its trim at most \<open>MAX_CONVERSATION_HISTORY + 1\<close>, and
  the assistant append that follows at most \<open>MAX_CONVERSATION_HISTORY + 2\<close>.
\<close>

theorem C1_history_length_bound:
  "length (history (run key repr Map.empty us) user_id) \<le> MAX_CONVERSATION_HISTORY + 2
   \<and> length (history (fresh (run key repr Map.empty us) user_id) user_id) = 1
   \<and> length (history (append_user (ensure (run key repr Map.empty us) user_id) user_id text) user_id)
        \<le> MAX_CONVERSATION_HISTORY + 1
   \<and> length (history (append_assistant
          (append_user (ensure (run key repr Map.empty us) user_id) user_id text) user_id c) user_id)
        \<le> MAX_CONVERSATION_HISTORY + 2"
proof -
  have "length (history (run key repr Map.empty us) user_id) \<le> MAX_CONVERSATION_HISTORY + 2"
    using bounded_run[of key repr us] by (auto simp: bounded_def history_def split: option.splits)
  moreover have "length (history (fresh (run key repr Map.empty us) user_id) user_id) = 1"
    by (simp add: history_def fresh_def)
  moreover have "length (history (append_user (ensure (run key repr Map.empty us) user_id) user_id text) user_id)
        \<le> MAX_CONVERSATION_HISTORY + 1"
    using length_trim_le[of "history (ensure (run key repr Map.empty us) user_id) user_id @ [user_message text]"]
    by (simp add: history_append_user)
  moreover have "length (history (append_assistant
          (append_user (ensure (run key repr Map.empty us) user_id) user_id text) user_id c) user_id)
        \<le> MAX_CONVERSATION_HISTORY + 2"
    using length_trim_le[of "history (ensure (run key repr Map.empty us) user_id) user_id @ [user_message text]"]
    by (simp add: history_def append_assistant_def append_user_def)
  ultimately show ?thesis by blast
qed

text \<open>
  Claim C1 as stated, a bound of \<open>MAX_CONVERSATION_HISTORY + 1\<close> after every mutation,
  fails: after twelve text messages of one user, each answered with content, the
  history holds twelve entries.
\<close>

theorem C1_counterexample:
  "\<not> length (history (run (Some ''k'') (\<lambda>v. []) Map.empty
        (replicate 12 (Text (Some 1) True ''hi''
           (Json (JObj [(''choices'', JArr [JObj [(''message'', JObj [(''content'', JStr ''ok'')])]])])))))
        1) \<le> MAX_CONVERSATION_HISTORY + 1"
  by code_simp

section \<open>The trim\<close>

text \<open>
  Claim C2. When the history \<open>h\<close>, as it stands right after the user append, has more
  than \<open>MAX_CONVERSATION_HISTORY + 1\<close> entries, it splits into its first entry, a
  non-empty run of dropped entries and the last \<open>MAX_CONVERSATION_HISTORY\<close> entries,
  and the store then holds the first entry followed by those last entries, in their
  order.
\<close>

theorem C2_trim_window:
  assumes "h = history cs user_id @ [user_message text]"
    and "length h > MAX_CONVERSATION_HISTORY + 1"
  shows "\<exists>dropped kept.
           h = h ! 0 # dropped @ kept \<and> dropped \<noteq> []
           \<and> length kept = MAX_CONVERSATION_HISTORY
           \<and> append_user cs user_id text user_id = Some (h ! 0 # kept)"
proof -
  let ?n = "length h - (MAX_CONVERSATION_HISTORY + 1)"
  let ?dropped = "take ?n (tl h)"
  let ?kept = "drop ?n (tl h)"
  from assms(2) have ne: "h \<noteq> []" by auto
  then have hd: "h = h ! 0 # tl h" by (cases h) simp_all
  have kept: "py_last MAX_CONVERSATION_HISTORY h = ?kept"
    using assms(2) ne by (cases h) (simp_all add: py_last_def Suc_diff_le)
  have "h = h ! 0 # ?dropped @ ?kept" using hd by simp
  moreover have "?dropped \<noteq> []" using assms(2) by (cases h) auto
  moreover have "length ?kept = MAX_CONVERSATION_HISTORY" using assms(2) by simp
  moreover have "append_user cs user_id text user_id = Some (h ! 0 # ?kept)"
  proof -
    have "trim h = h ! 0 # py_last MAX_CONVERSATION_HISTORY h"
      using assms(2) by (simp add: trim_def)
    moreover have "append_user cs user_id text user_id = Some (trim h)"
      by (simp add: append_user_same assms(1))
    ultimately show ?thesis by (simp only: kept)
  qed
  ultimately show ?thesis by blast
qed

theorem C2_trim_window_witness:
  "\<exists>dropped kept.
     history (Map.empty(7 \<mapsto> system_message # replicate 11 (assistant_message (JStr ''old'')))) 7
        @ [user_message ''new'']
       = system_message # dropped @ kept
     \<and> dropped \<noteq> [] \<and> length kept = MAX_CONVERSATION_HISTORY
     \<and> append_user (Map.empty(7 \<mapsto> system_message # replicate 11 (assistant_message (JStr ''old''))))
          7 ''new'' 7 = Some (system_message # kept)"
  using C2_trim_window
    [of "system_message # replicate 11 (assistant_message (JStr ''old'')) @ [user_message ''new'']"
        "Map.empty(7 \<mapsto> system_message # replicate 11 (assistant_message (JStr ''old'')))"
        7 "''new''"]
  by (simp add: history_def MAX_CONVERSATION_HISTORY_def)

section \<open>The system message\<close>

text \<open>
  Claim C3. In every store reached from the empty one, a user who has a history has a
  non-empty one whose first entry has the role \<open>system\<close>; and whatever update is
  processed next, that user still has a history, and its first entry is the same.
\<close>

theorem C3_system_message_first:
  assumes "run key repr Map.empty us user_id = Some h"
  shows "h \<noteq> [] \<and> role (h ! 0) = ''system''
         \<and> (\<exists>h'. convs (process_update key repr (run key repr Map.empty us) u) user_id = Some h'
                 \<and> h' \<noteq> [] \<and> h' ! 0 = h ! 0)"
proof -
  have r: "rooted (run key repr Map.empty us)" by (rule rooted_run)
  with assms have h: "h \<noteq> [] \<and> h ! 0 = system_message" by (simp add: rooted_def)
  from assms have "convs (process_update key repr (run key repr Map.empty us) u) user_id \<noteq> None"
    by (intro process_update_keeps_user) simp
  then obtain h' where h': "convs (process_update key repr (run key repr Map.empty us) u) user_id = Some h'"
    by blast
  with rooted_process_update[OF r, of key repr u] have "h' \<noteq> [] \<and> h' ! 0 = system_message"
    by (simp add: rooted_def)
  with h h' show ?thesis by (simp add: system_message_def)
qed

theorem C3_system_message_first_witness:
  "run (Some ''k'') (\<lambda>v. []) Map.empty [Text (Some 7) True ''hi'' (RequestException ''timeout'')] 7
     = Some [system_message, user_message ''hi'']
   \<and> role ([system_message, user_message ''hi''] ! 0) = ''system''
   \<and> (\<exists>h'. convs (process_update (Some ''k'') (\<lambda>v. [])
                 (run (Some ''k'') (\<lambda>v. []) Map.empty [Text (Some 7) True ''hi'' (RequestException ''timeout'')])
                 (Reset (Some 7) True)) 7 = Some h'
           \<and> h' \<noteq> [] \<and> h' ! 0 = [system_message, user_message ''hi''] ! 0)"
proof -
  have r: "run (Some ''k'') (\<lambda>v. []) Map.empty [Text (Some 7) True ''hi'' (RequestException ''timeout'')] 7
     = Some [system_message, user_message ''hi'']"
    by code_simp
  from C3_system_message_first[OF r, of "Reset (Some 7) True"] r show ?thesis by simp
qed

section \<open>The answer of the service\<close>

text \<open>
  Claim C4, as the code has it. \<^verbatim>\<open>call_f5ai_api\<close> validates nothing: a decoded 2xx body is
  handed back as it is, and the only failure values it builds are the \<open>error\<close> dicts of
  lines 40, 60 and 63. The envelope is read by line 117 of the text handler. For a body
  that is a JSON object with no \<open>error\<close> key in which an expected field is missing (no
  \<open>choices\<close> key; or \<open>choices\<close> is a list whose first element is an object with no
  \<open>message\<close> key; or that \<open>message\<close> is an object with no \<open>content\<close> key), the
  handler returns the body unchanged from the call, replies with the rephrase message,
  appends no assistant message, and the rephrase message differs from every reply made
  for a request error.
\<close>

theorem C4_missing_fields_rephrase:
  assumes "\<not> key_unset key"
    and "map_of kvs ''error'' = None"
    and "map_of kvs ''choices'' = None
         \<or> (\<exists>ch rest. map_of kvs ''choices'' = Some (JArr (JObj ch # rest))
              \<and> (map_of ch ''message'' = None
                   \<or> (\<exists>m. map_of ch ''message'' = Some (JObj m) \<and> map_of m ''content'' = None)))"
  shows "snd (call_f5ai_api key (history (append_user (ensure cs user_id) user_id text) user_id)
              (Json (JObj kvs))) = JObj kvs
       \<and> handle_text key repr cs (Some user_id) (Some text) (Json (JObj kvs)) =
           \<lparr>convs = append_user (ensure cs user_id) user_id text,
            sent = SendChatAction ''typing''
                   # fst (call_f5ai_api key
                          (history (append_user (ensure cs user_id) user_id text) user_id)
                          (Json (JObj kvs)))
                   @ [ReplyText (JStr MSG_EMPTY)],
            raised = None\<rparr>
       \<and> MSG_EMPTY \<noteq> MSG_ERROR_PREFIX @ REQUEST_ERROR_PREFIX @ e"
proof -
  have resp: "snd (call_f5ai_api key (history (append_user (ensure cs user_id) user_id text) user_id)
              (Json (JObj kvs))) = JObj kvs"
    using assms(1) by (rule call_f5ai_api_json)
  have "py_in ''error'' (JObj kvs) = Inr False" using assms(2) by simp
  moreover have "extract_content (JObj kvs) = Inr (JStr [])"
    using assms(3) by (rule extract_content_missing)
  moreover have "\<not> truthy (JStr [])" by simp
  ultimately have "handle_text key repr cs (Some user_id) (Some text) (Json (JObj kvs)) =
           \<lparr>convs = append_user (ensure cs user_id) user_id text,
            sent = SendChatAction ''typing''
                   # fst (call_f5ai_api key
                          (history (append_user (ensure cs user_id) user_id text) user_id)
                          (Json (JObj kvs)))
                   @ [ReplyText (JStr MSG_EMPTY)],
            raised = None\<rparr>"
    using handle_text_no_content[OF assms(1) resp] by blast
  with resp MSG_EMPTY_not_error show ?thesis by blast
qed

text \<open>
  The concrete case of a body with one unrelated key.
\<close>

theorem C4_missing_fields_rephrase_witness:
  "snd (call_f5ai_api (Some ''k'') (history (append_user (ensure Map.empty 7) 7 ''hi'') 7)
              (Json (JObj [(''id'', JStr ''x'')]))) = JObj [(''id'', JStr ''x'')]
       \<and> handle_text (Some ''k'') (\<lambda>v. []) Map.empty (Some 7) (Some ''hi'') (Json (JObj [(''id'', JStr ''x'')])) =
           \<lparr>convs = append_user (ensure Map.empty 7) 7 ''hi'',
            sent = SendChatAction ''typing''
                   # fst (call_f5ai_api (Some ''k'')
                          (history (append_user (ensure Map.empty 7) 7 ''hi'') 7)
                          (Json (JObj [(''id'', JStr ''x'')])))
                   @ [ReplyText (JStr MSG_EMPTY)],
            raised = None\<rparr>
       \<and> MSG_EMPTY \<noteq> MSG_ERROR_PREFIX @ REQUEST_ERROR_PREFIX @ ''timed out''"
  using C4_missing_fields_rephrase
    [of "Some ''k''" "[(''id'', JStr ''x'')]" Map.empty 7 "''hi''" "\<lambda>v. []" "''timed out''"]
  by (simp add: key_unset_def)

text \<open>
  Claim C4 as stated, a failure value of its own kind for every unexpected 2xx
  envelope, fails for the body \<^verbatim>\<open>{"choices": []}\<close>: the call returns the body itself,
  which has no \<open>error\<close> key, and the handler ends with \<open>IndexError\<close> and no reply of
  its own.
\<close>

theorem C4_counterexample:
  "snd (call_f5ai_api (Some ''k'') [system_message, user_message ''hi'']
          (Json (JObj [(''choices'', JArr [])]))) = JObj [(''choices'', JArr [])]
   \<and> py_in ''error'' (JObj [(''choices'', JArr [])]) = Inr False
   \<and> handle_text (Some ''k'') (\<lambda>v. []) Map.empty (Some 7) (Some ''hi'') (Json (JObj [(''choices'', JArr [])]))
       = \<lparr>convs = Map.empty(7 \<mapsto> [system_message, user_message ''hi'']),
          sent = SendChatAction ''typing''
                 # fst (call_f5ai_api (Some ''k'') [system_message, user_message ''hi'']
                         (Json (JObj [(''choices'', JArr [])]))),
          raised = Some IndexError\<rparr>"
  by (simp add: handle_text_configured key_unset_def call_f5ai_api_def extract_content_def
      history_def append_user_def ensure_def trim_def MAX_CONVERSATION_HISTORY_def)

text \<open>
  Claim C5. When the call hands back a dict with an \<open>error\<close> key (lines 40, 60, 63, or
  a 2xx body that has the key), the handler returns without raising, the store is the
  one the call was made from, so the history has the length it had before the call,
  and the last reply is the error prefix followed by the printed detail. For a
  \<^verbatim>\<open>RequestException\<close>, a timeout among them, and for any other exception the detail
  is the prefix of line 60 or 63 followed by \<^verbatim>\<open>str(e)\<close>.
\<close>

theorem C5_failure_keeps_history:
  assumes "\<not> key_unset key"
    and "snd (call_f5ai_api key (history (append_user (ensure cs user_id) user_id text) user_id) outcome)
           = JObj kvs"
    and "map_of kvs ''error'' = Some detail"
  shows "handle_text key repr cs (Some user_id) (Some text) outcome =
           \<lparr>convs = append_user (ensure cs user_id) user_id text,
            sent = SendChatAction ''typing''
                   # fst (call_f5ai_api key
                          (history (append_user (ensure cs user_id) user_id text) user_id) outcome)
                   @ [ReplyText (JStr (MSG_ERROR_PREFIX @ py_str repr detail))],
            raised = None\<rparr>
       \<and> length (history (convs (handle_text key repr cs (Some user_id) (Some text) outcome)) user_id)
           = length (history (append_user (ensure cs user_id) user_id text) user_id)
       \<and> (\<forall>e. outcome = RequestException e \<longrightarrow> py_str repr detail = REQUEST_ERROR_PREFIX @ e)
       \<and> (\<forall>e. outcome = OtherException e \<longrightarrow> py_str repr detail = UNEXPECTED_ERROR_PREFIX @ e)"
proof -
  have r: "handle_text key repr cs (Some user_id) (Some text) outcome =
           \<lparr>convs = append_user (ensure cs user_id) user_id text,
            sent = SendChatAction ''typing''
                   # fst (call_f5ai_api key
                          (history (append_user (ensure cs user_id) user_id text) user_id) outcome)
                   @ [ReplyText (JStr (MSG_ERROR_PREFIX @ py_str repr detail))],
            raised = None\<rparr>"
    using assms by (rule handle_text_failure)
  have "\<forall>e. outcome = RequestException e \<longrightarrow> py_str repr detail = REQUEST_ERROR_PREFIX @ e"
    using assms by (auto simp: call_f5ai_api_def py_str_def)
  moreover have "\<forall>e. outcome = OtherException e \<longrightarrow> py_str repr detail = UNEXPECTED_ERROR_PREFIX @ e"
    using assms by (auto simp: call_f5ai_api_def py_str_def)
  ultimately show ?thesis using r by simp
qed

text \<open>
  The concrete case of a timeout on a user's first message.
\<close>

theorem C5_failure_keeps_history_witness:
  "handle_text (Some ''k'') (\<lambda>v. []) Map.empty (Some 7) (Some ''hi'') (RequestException ''timed out'') =
           \<lparr>convs = Map.empty(7 \<mapsto> [system_message, user_message ''hi'']),
            sent = SendChatAction ''typing''
                   # fst (call_f5ai_api (Some ''k'') [system_message, user_message ''hi'']
                            (RequestException ''timed out''))
                   @ [ReplyText (JStr (MSG_ERROR_PREFIX @ REQUEST_ERROR_PREFIX @ ''timed out''))],
            raised = None\<rparr>
   \<and> length (history (convs (handle_text (Some ''k'') (\<lambda>v. []) Map.empty (Some 7) (Some ''hi'')
         (RequestException ''timed out''))) 7) = 2"
  using C5_failure_keeps_history
    [of "Some ''k''" Map.empty 7 "''hi''" "RequestException ''timed out''"
        "[(''error'', JStr (REQUEST_ERROR_PREFIX @ ''timed out''))]"
        "JStr (REQUEST_ERROR_PREFIX @ ''timed out'')" "\<lambda>v. []"]
  by (simp add: key_unset_def call_f5ai_api_def history_def append_user_def ensure_def trim_def
      MAX_CONVERSATION_HISTORY_def py_str_def)

text \<open>
  Claim C6. When the body has no \<open>error\<close> key and line 117 extracts the empty
  string, the handler replies with the rephrase message and leaves the store as it was
  before the call, with no assistant message; the rephrase message differs from every
  error reply of line 114, from the missing-key message and from the error handler's
  apology.
\<close>

theorem C6_empty_content_rephrase:
  assumes "\<not> key_unset key"
    and "map_of kvs ''error'' = None"
    and "extract_content (JObj kvs) = Inr (JStr [])"
  shows "handle_text key repr cs (Some user_id) (Some text) (Json (JObj kvs)) =
           \<lparr>convs = append_user (ensure cs user_id) user_id text,
            sent = SendChatAction ''typing''
                   # fst (call_f5ai_api key
                          (history (append_user (ensure cs user_id) user_id text) user_id)
                          (Json (JObj kvs)))
                   @ [ReplyText (JStr MSG_EMPTY)],
            raised = None\<rparr>
       \<and> MSG_EMPTY \<noteq> MSG_ERROR_PREFIX @ d
       \<and> MSG_EMPTY \<noteq> MSG_KEY_MISSING
       \<and> MSG_EMPTY \<noteq> MSG_APOLOGY"
proof -
  have resp: "snd (call_f5ai_api key (history (append_user (ensure cs user_id) user_id text) user_id)
              (Json (JObj kvs))) = JObj kvs"
    using assms(1) by (rule call_f5ai_api_json)
  have "py_in ''error'' (JObj kvs) = Inr False" using assms(2) by simp
  moreover have "\<not> truthy (JStr [])" by simp
  ultimately have "handle_text key repr cs (Some user_id) (Some text) (Json (JObj kvs)) =
           \<lparr>convs = append_user (ensure cs user_id) user_id text,
            sent = SendChatAction ''typing''
                   # fst (call_f5ai_api key
                          (history (append_user (ensure cs user_id) user_id text) user_id)
                          (Json (JObj kvs)))
                   @ [ReplyText (JStr MSG_EMPTY)],
            raised = None\<rparr>"
    using handle_text_no_content[OF assms(1) resp] assms(3) by blast
  then show ?thesis
    using MSG_EMPTY_not_error MSG_EMPTY_not_key_missing MSG_EMPTY_not_apology by blast
qed

text \<open>
  The concrete case of a well-formed envelope whose content is the empty string.
\<close>

theorem C6_empty_content_rephrase_witness:
  "handle_text (Some ''k'') (\<lambda>v. []) Map.empty (Some 7) (Some ''hi'')
      (Json (JObj [(''choices'', JArr [JObj [(''message'', JObj [(''content'', JStr [])])]])])) =
           \<lparr>convs = append_user (ensure Map.empty 7) 7 ''hi'',
            sent = SendChatAction ''typing''
                   # fst (call_f5ai_api (Some ''k'')
                          (history (append_user (ensure Map.empty 7) 7 ''hi'') 7)
                          (Json (JObj [(''choices'', JArr [JObj [(''message'', JObj [(''content'', JStr [])])]])])))
                   @ [ReplyText (JStr MSG_EMPTY)],
            raised = None\<rparr>
       \<and> MSG_EMPTY \<noteq> MSG_ERROR_PREFIX @ ''x''
       \<and> MSG_EMPTY \<noteq> MSG_KEY_MISSING
       \<and> MSG_EMPTY \<noteq> MSG_APOLOGY"
  using C6_empty_content_rephrase
    [of "Some ''k''" "[(''choices'', JArr [JObj [(''message'', JObj [(''content'', JStr [])])]])]"
        "\<lambda>v. []" Map.empty 7 "''hi''" "''x''"]
  by (simp add: key_unset_def extract_content_def)

section \<open>Replies that need no upstream call\<close>

text \<open>
  Claim C7, as the code has it. With the API key unset (absent or empty), no text
  update reaches the upstream client: whatever the update carries, the store is
  unchanged and no HTTP POST is among the actions, and \<^verbatim>\<open>call_f5ai_api\<close> itself, were
  it called, performs no I/O and returns the not-configured error. When the update
  carries an effective user and \<^verbatim>\<open>update.message\<close>, it is answered with the fixed
  missing-key message and nothing else.
\<close>

theorem C7_unset_key_no_upstream:
  assumes "key_unset key"
  shows "convs (process_update key repr cs (Text effective_user m text outcome)) = cs
       \<and> HttpPost req \<notin> set (sent (process_update key repr cs (Text effective_user m text outcome)))
       \<and> call_f5ai_api key msgs outcome = ([], JObj [(''error'', JStr MSG_KEY_NOT_CONFIGURED)])
       \<and> handle_text key repr cs (Some user_id) (Some text) outcome =
           \<lparr>convs = cs, sent = [ReplyText (JStr MSG_KEY_MISSING)], raised = None\<rparr>
       \<and> process_update key repr cs (Text (Some user_id) True text outcome) =
           \<lparr>convs = cs, sent = [ReplyText (JStr MSG_KEY_MISSING)], raised = None\<rparr>"
proof -
  have r: "handle_text key repr cs (Some user_id) (Some text) outcome =
           \<lparr>convs = cs, sent = [ReplyText (JStr MSG_KEY_MISSING)], raised = None\<rparr>"
    using assms by (simp add: handle_text_def)
  have d: "dispatch key repr cs (Text effective_user m text outcome)
             = \<lparr>convs = cs, sent = [ReplyText (JStr MSG_KEY_MISSING)], raised = None\<rparr>
           \<or> dispatch key repr cs (Text effective_user m text outcome)
             = \<lparr>convs = cs, sent = [], raised = Some AttributeError\<rparr>"
    using assms by (simp add: handle_text_def split: option.splits)
  have "convs (process_update key repr cs (Text effective_user m text outcome)) = cs"
    using d by (auto simp: convs_process_update)
  moreover have "HttpPost req \<notin> set (sent (process_update key repr cs (Text effective_user m text outcome)))"
    using d by (auto simp: process_update_def error_handler_def)
  moreover have "call_f5ai_api key msgs outcome = ([], JObj [(''error'', JStr MSG_KEY_NOT_CONFIGURED)])"
    using assms by (simp add: call_f5ai_api_def)
  moreover have "process_update key repr cs (Text (Some user_id) True text outcome) =
           \<lparr>convs = cs, sent = [ReplyText (JStr MSG_KEY_MISSING)], raised = None\<rparr>"
    using r by (simp add: process_update_def)
  ultimately show ?thesis using r by blast
qed

text \<open>The concrete case of an absent key and an ordinary text message.\<close>

theorem C7_unset_key_no_upstream_witness:
  "convs (process_update None (\<lambda>v. []) Map.empty
            (Text (Some 7) True ''hi'' (RequestException ''unreachable''))) = Map.empty
   \<and> HttpPost \<lparr>url = F5AI_API_URL, auth_token = [], model = DEFAULT_MODEL, messages = [],
               max_tokens = DEFAULT_MAX_TOKENS, temperature = DEFAULT_TEMPERATURE\<rparr>
        \<notin> set (sent (process_update None (\<lambda>v. []) Map.empty
                         (Text (Some 7) True ''hi'' (RequestException ''unreachable''))))
   \<and> call_f5ai_api None [] (RequestException ''unreachable'')
        = ([], JObj [(''error'', JStr MSG_KEY_NOT_CONFIGURED)])
   \<and> handle_text None (\<lambda>v. []) Map.empty (Some 7) (Some ''hi'') (RequestException ''unreachable'') =
        \<lparr>convs = Map.empty, sent = [ReplyText (JStr MSG_KEY_MISSING)], raised = None\<rparr>
   \<and> process_update None (\<lambda>v. []) Map.empty (Text (Some 7) True ''hi'' (RequestException ''unreachable'')) =
        \<lparr>convs = Map.empty, sent = [ReplyText (JStr MSG_KEY_MISSING)], raised = None\<rparr>"
proof -
  have a: "key_unset None" by (simp add: key_unset_def)
  show ?thesis
    by (rule C7_unset_key_no_upstream[OF a, of "\<lambda>v. []" Map.empty "Some 7" True "''hi''"
          "RequestException ''unreachable''" _ "[]" 7])
qed

text \<open>
  Claim C7 as stated, the missing-key reply for every text update, fails for an edited
  text message: \<^verbatim>\<open>update.message\<close> is \<^verbatim>\<open>None\<close>, line 95 raises before the test of
  the key, and the error handler, whose line 140 asks for \<^verbatim>\<open>update.message\<close>, sends
  nothing either.
\<close>

theorem C7_counterexample:
  "process_update None (\<lambda>v. []) Map.empty (Text (Some 7) False ''hi'' (RequestException ''unreachable''))
     = \<lparr>convs = Map.empty, sent = [], raised = Some AttributeError\<rparr>"
  by (simp add: process_update_def handle_text_def error_handler_def)

text \<open>
  Claim C8, as the code has it. A document update whose declared MIME type is not
  \<^verbatim>\<open>text/plain\<close> (or is absent) leaves the store unchanged and posts nothing to the
  upstream service, whatever else the update carries. When the document is under
  \<^verbatim>\<open>update.message\<close>, the update is answered with the rejection message and nothing
  else.
\<close>

theorem C8_not_plain_text_rejected:
  assumes "mime_type \<noteq> Some ''text/plain''"
  shows "convs (process_update key repr cs (Document effective_user m mime_type download outcome)) = cs
       \<and> HttpPost req \<notin> set (sent (process_update key repr cs
                                     (Document effective_user m mime_type download outcome)))
       \<and> handle_document key repr cs effective_user (Some (mime_type, download)) outcome =
           \<lparr>convs = cs, sent = [ReplyText (JStr MSG_NOT_TXT)], raised = None\<rparr>
       \<and> process_update key repr cs (Document effective_user True mime_type download outcome) =
           \<lparr>convs = cs, sent = [ReplyText (JStr MSG_NOT_TXT)], raised = None\<rparr>"
proof -
  have r: "handle_document key repr cs effective_user (Some (mime_type, download)) outcome =
           \<lparr>convs = cs, sent = [ReplyText (JStr MSG_NOT_TXT)], raised = None\<rparr>"
    using assms by (simp add: handle_document_def)
  have d: "dispatch key repr cs (Document effective_user m mime_type download outcome)
             = \<lparr>convs = cs, sent = [ReplyText (JStr MSG_NOT_TXT)], raised = None\<rparr>
           \<or> dispatch key repr cs (Document effective_user m mime_type download outcome)
             = \<lparr>convs = cs, sent = [], raised = Some AttributeError\<rparr>"
    using assms by (simp add: handle_document_def)
  have "convs (process_update key repr cs (Document effective_user m mime_type download outcome)) = cs"
    using d by (auto simp: convs_process_update)
  moreover have "HttpPost req \<notin> set (sent (process_update key repr cs
                                     (Document effective_user m mime_type download outcome)))"
    using d by (auto simp: process_update_def error_handler_def)
  moreover have "process_update key repr cs (Document effective_user True mime_type download outcome) =
           \<lparr>convs = cs, sent = [ReplyText (JStr MSG_NOT_TXT)], raised = None\<rparr>"
    using r by (simp add: process_update_def)
  ultimately show ?thesis using r by blast
qed

text \<open>The concrete case of a PDF sent as an ordinary message.\<close>

theorem C8_not_plain_text_rejected_witness:
  "convs (process_update (Some ''k'') (\<lambda>v. []) Map.empty
            (Document (Some 7) True (Some ''application/pdf'') (Inr ''hello'')
               (RequestException ''unreachable''))) = Map.empty
   \<and> HttpPost \<lparr>url = F5AI_API_URL, auth_token = ''k'', model = DEFAULT_MODEL, messages = [],
               max_tokens = DEFAULT_MAX_TOKENS, temperature = DEFAULT_TEMPERATURE\<rparr>
        \<notin> set (sent (process_update (Some ''k'') (\<lambda>v. []) Map.empty
             (Document (Some 7) True (Some ''application/pdf'') (Inr ''hello'')
                (RequestException ''unreachable''))))
   \<and> handle_document (Some ''k'') (\<lambda>v. []) Map.empty (Some 7)
        (Some (Some ''application/pdf'', Inr ''hello'')) (RequestException ''unreachable'') =
        \<lparr>convs = Map.empty, sent = [ReplyText (JStr MSG_NOT_TXT)], raised = None\<rparr>
   \<and> process_update (Some ''k'') (\<lambda>v. []) Map.empty
        (Document (Some 7) True (Some ''application/pdf'') (Inr ''hello'')
           (RequestException ''unreachable'')) =
        \<lparr>convs = Map.empty, sent = [ReplyText (JStr MSG_NOT_TXT)], raised = None\<rparr>"
proof -
  have a: "Some ''application/pdf'' \<noteq> Some ''text/plain''" by simp
  show ?thesis
    by (rule C8_not_plain_text_rejected[OF a, of "Some ''k''" "\<lambda>v. []" Map.empty "Some 7" True
          "Inr ''hello''" "RequestException ''unreachable''"])
qed

text \<open>
  Claim C8 as stated, the rejection message for every such upload, fails for a PDF
  that arrives in an edited message or a channel post: \<^verbatim>\<open>update.message\<close> is
  \<^verbatim>\<open>None\<close>, line 126 raises before the test of the MIME type, and neither the handler
  nor the error handler sends a reply.
\<close>

theorem C8_counterexample:
  "process_update (Some ''k'') (\<lambda>v. []) Map.empty
     (Document (Some 7) False (Some ''application/pdf'') (Inr ''hello'') (RequestException ''unreachable''))
     = \<lparr>convs = Map.empty, sent = [], raised = Some AttributeError\<rparr>"
  by (simp add: process_update_def handle_document_def error_handler_def)

section \<open>The user turn of a failed exchange\<close>

text \<open>
  Claim C9. When the test of line 113 finds an \<open>error\<close>, or line 117 extracts a falsy
  content, the store after the event is the store after the user append and its trim:
  the history ends with the user's message, and that message is among the messages of
  the request that the user's next text message posts.
\<close>

theorem C9_user_turn_stays:
  assumes "\<not> key_unset key"
    and "snd (call_f5ai_api key (history (append_user (ensure cs user_id) user_id text) user_id) outcome)
           = resp"
    and "py_in ''error'' resp = Inr True
         \<or> (py_in ''error'' resp = Inr False \<and> (\<exists>c. extract_content resp = Inr c \<and> \<not> truthy c))"
  shows "convs (handle_text key repr cs (Some user_id) (Some text) outcome) = append_user (ensure cs user_id) user_id text
       \<and> history (convs (handle_text key repr cs (Some user_id) (Some text) outcome)) user_id
           = trim (history (ensure cs user_id) user_id @ [user_message text])
       \<and> last (history (convs (handle_text key repr cs (Some user_id) (Some text) outcome)) user_id) = user_message text
       \<and> (\<exists>req. HttpPost req \<in> set (sent (handle_text key repr
                     (convs (handle_text key repr cs (Some user_id) (Some text) outcome)) (Some user_id) (Some text2) outcome2))
                \<and> user_message text \<in> set (messages req)
                \<and> messages req = trim (history (convs (handle_text key repr cs (Some user_id) (Some text) outcome)) user_id
                                         @ [user_message text2]))"
proof -
  let ?cs1 = "append_user (ensure cs user_id) user_id text"
  let ?r = "handle_text key repr cs (Some user_id) (Some text) outcome"
  have c: "convs ?r = ?cs1"
    using assms by (auto simp: handle_text_configured Let_def split: sum.splits)
  have h: "history ?cs1 user_id = trim (history (ensure cs user_id) user_id @ [user_message text])"
    by (rule history_append_user)
  have l: "last (history ?cs1 user_id) = user_message text"
    by (simp add: h last_trim)
  have ne: "history ?cs1 user_id \<noteq> []" by (simp add: h trim_not_Nil)
  let ?req = "\<lparr>url = F5AI_API_URL, auth_token = (case key of Some k \<Rightarrow> k | None \<Rightarrow> []),
                model = DEFAULT_MODEL,
                messages = trim (history ?cs1 user_id @ [user_message text2]),
                max_tokens = DEFAULT_MAX_TOKENS, temperature = DEFAULT_TEMPERATURE\<rparr>"
  have e: "ensure ?cs1 user_id = ?cs1" by (simp add: ensure_def append_user_def)
  have "HttpPost ?req \<in> set (sent (handle_text key repr ?cs1 (Some user_id) (Some text2) outcome2))"
    using assms(1)
    by (simp add: handle_text_configured Let_def e history_append_user call_f5ai_api_posts
        split: sum.splits bool.splits)
  moreover have "user_message text \<in> set (messages ?req)"
  proof -
    from ne l obtain hs where "history ?cs1 user_id = hs @ [user_message text]"
      by (metis append_butlast_last_id)
    then show ?thesis using second_last_in_trim[of "user_message text" hs "user_message text2"] by simp
  qed
  ultimately show ?thesis using c h l by (intro conjI exI[of _ ?req]) simp_all
qed

text \<open>
  The concrete case of a timeout followed by a second message.
\<close>

theorem C9_user_turn_stays_witness:
  "convs (handle_text (Some ''k'') (\<lambda>v. []) Map.empty (Some 7) (Some ''hi'') (RequestException ''timed out''))
     = append_user (ensure Map.empty 7) 7 ''hi''
   \<and> history (convs (handle_text (Some ''k'') (\<lambda>v. []) Map.empty (Some 7) (Some ''hi'')
                      (RequestException ''timed out''))) 7
     = trim (history (ensure Map.empty 7) 7 @ [user_message ''hi''])
   \<and> last (history (convs (handle_text (Some ''k'') (\<lambda>v. []) Map.empty (Some 7) (Some ''hi'')
                      (RequestException ''timed out''))) 7) = user_message ''hi''
   \<and> (\<exists>req. HttpPost req \<in> set (sent (handle_text (Some ''k'') (\<lambda>v. [])
                     (convs (handle_text (Some ''k'') (\<lambda>v. []) Map.empty (Some 7) (Some ''hi'')
                               (RequestException ''timed out''))) (Some 7) (Some ''again'') (Json (JObj []))))
            \<and> user_message ''hi'' \<in> set (messages req)
            \<and> messages req
                = trim (history (convs (handle_text (Some ''k'') (\<lambda>v. []) Map.empty (Some 7) (Some ''hi'')
                                          (RequestException ''timed out''))) 7
                        @ [user_message ''again'']))"
proof -
  have a: "\<not> key_unset (Some ''k'')" by (simp add: key_unset_def)
  have b: "py_in ''error'' (snd (call_f5ai_api (Some ''k'')
              (history (append_user (ensure Map.empty 7) 7 ''hi'') 7) (RequestException ''timed out'')))
            = Inr True
         \<or> (py_in ''error'' (snd (call_f5ai_api (Some ''k'')
              (history (append_user (ensure Map.empty 7) 7 ''hi'') 7) (RequestException ''timed out'')))
             = Inr False
            \<and> (\<exists>c. extract_content (snd (call_f5ai_api (Some ''k'')
              (history (append_user (ensure Map.empty 7) 7 ''hi'') 7) (RequestException ''timed out'')))
                 = Inr c \<and> \<not> truthy c))"
    by (simp add: call_f5ai_api_def key_unset_def)
  show ?thesis
    by (rule C9_user_turn_stays[OF a refl b, of "\<lambda>v. []" "''again''" "Json (JObj [])"])
qed

section \<open>An empty list of choices\<close>

text \<open>
  Claim C10, as the code has it. For a 2xx body that is a JSON object with \<open>choices\<close>
  bound to the empty list and with no \<open>error\<close> key, line 117 raises \<open>IndexError\<close>:
  the handler sends no reply of its own, the user's message stays in the store, and
  the only reply is the apology of the error handler, which is neither the rephrase
  message nor an error reply of line 114.
\<close>

theorem C10_empty_choices_raises:
  assumes "\<not> key_unset key"
    and "map_of kvs ''choices'' = Some (JArr [])"
    and "map_of kvs ''error'' = None"
  shows "handle_text key repr cs (Some user_id) (Some text) (Json (JObj kvs)) =
           \<lparr>convs = append_user (ensure cs user_id) user_id text,
            sent = SendChatAction ''typing''
                   # fst (call_f5ai_api key
                          (history (append_user (ensure cs user_id) user_id text) user_id)
                          (Json (JObj kvs))),
            raised = Some IndexError\<rparr>
       \<and> process_update key repr cs (Text (Some user_id) True text (Json (JObj kvs))) =
           \<lparr>convs = append_user (ensure cs user_id) user_id text,
            sent = SendChatAction ''typing''
                   # fst (call_f5ai_api key
                          (history (append_user (ensure cs user_id) user_id text) user_id)
                          (Json (JObj kvs)))
                   @ [ReplyText (JStr MSG_APOLOGY)],
            raised = Some IndexError\<rparr>
       \<and> MSG_APOLOGY \<noteq> MSG_EMPTY \<and> MSG_APOLOGY \<noteq> MSG_ERROR_PREFIX @ d"
proof -
  have "extract_content (JObj kvs) = Inl IndexError"
    using assms(2) by (simp add: extract_content_def)
  moreover have "py_in ''error'' (JObj kvs) = Inr False" using assms(3) by simp
  ultimately have r: "handle_text key repr cs (Some user_id) (Some text) (Json (JObj kvs)) =
           \<lparr>convs = append_user (ensure cs user_id) user_id text,
            sent = SendChatAction ''typing''
                   # fst (call_f5ai_api key
                          (history (append_user (ensure cs user_id) user_id text) user_id)
                          (Json (JObj kvs))),
            raised = Some IndexError\<rparr>"
    using assms(1) by (simp add: handle_text_configured Let_def call_f5ai_api_json)
  then show ?thesis
    using MSG_EMPTY_not_apology[symmetric] MSG_APOLOGY_not_error
    by (simp add: process_update_def error_handler_def)
qed

text \<open>
  The concrete case of a body with the empty list of choices alone.
\<close>

theorem C10_empty_choices_raises_witness:
  "handle_text (Some ''k'') (\<lambda>v. []) Map.empty (Some 7) (Some ''hi'') (Json (JObj [(''choices'', JArr [])])) =
           \<lparr>convs = append_user (ensure Map.empty 7) 7 ''hi'',
            sent = SendChatAction ''typing''
                   # fst (call_f5ai_api (Some ''k'')
                          (history (append_user (ensure Map.empty 7) 7 ''hi'') 7)
                          (Json (JObj [(''choices'', JArr [])]))),
            raised = Some IndexError\<rparr>
       \<and> process_update (Some ''k'') (\<lambda>v. []) Map.empty (Text (Some 7) True ''hi'' (Json (JObj [(''choices'', JArr [])]))) =
           \<lparr>convs = append_user (ensure Map.empty 7) 7 ''hi'',
            sent = SendChatAction ''typing''
                   # fst (call_f5ai_api (Some ''k'')
                          (history (append_user (ensure Map.empty 7) 7 ''hi'') 7)
                          (Json (JObj [(''choices'', JArr [])])))
                   @ [ReplyText (JStr MSG_APOLOGY)],
            raised = Some IndexError\<rparr>
       \<and> MSG_APOLOGY \<noteq> MSG_EMPTY \<and> MSG_APOLOGY \<noteq> MSG_ERROR_PREFIX @ ''x''"
  using C10_empty_choices_raises
    [of "Some ''k''" "[(''choices'', JArr [])]" "\<lambda>v. []" Map.empty 7 "''hi''" "''x''"]
  by (simp add: key_unset_def)

text \<open>
  Claim C10 as stated, for every object with an empty list of choices, fails when the
  object has an \<open>error\<close> key as well: line 113 comes first, and the handler answers
  with the error reply of line 114 and raises nothing.
\<close>

theorem C10_counterexample:
  "handle_text (Some ''k'') (\<lambda>v. []) Map.empty (Some 7) (Some ''hi'')
      (Json (JObj [(''error'', JStr ''quota''), (''choices'', JArr [])]))
   = \<lparr>convs = Map.empty(7 \<mapsto> [system_message, user_message ''hi'']),
      sent = SendChatAction ''typing''
             # fst (call_f5ai_api (Some ''k'') [system_message, user_message ''hi'']
                     (Json (JObj [(''error'', JStr ''quota''), (''choices'', JArr [])])))
             @ [ReplyText (JStr (MSG_ERROR_PREFIX @ ''quota''))],
      raised = None\<rparr>"
  by (simp add: handle_text_configured key_unset_def call_f5ai_api_def py_str_def
      history_def append_user_def ensure_def trim_def MAX_CONVERSATION_HISTORY_def)

end
